theory Spec2Isabelle
  imports Complex_Main "HOL-Library.Word"
begin

chapter \<open>h2spacex: the HTTP/2 connection of \<^verbatim>\<open>src/h2spacex/h2_connection.py\<close>\<close>

text \<open>
  A shallow embedding of the class \<^verbatim>\<open>H2Connection\<close>. The attributes of the Python
  object are the fields of the record \<open>h2conn\<close>; everything outside the object that a
  method touches (the network, the socket, the process-wide SOCKS default and the
  standard output) is the record \<open>world\<close>. A method is a function from its arguments
  and the pair \<open>(self, w)\<close> to its outcome and the new pair; an outcome is \<open>Inr\<close> the
  returned value or \<open>Inl\<close> the exception that leaves the method.
\<close>

section \<open>Python values\<close>

type_synonym byte = "8 word"
type_synonym bytes = "byte list"

text \<open>A Python \<^verbatim>\<open>str\<close> that the code encodes is a list of code points.\<close>

type_synonym pystr = "nat list"

datatype py_exn =
    ValueError string
  | AttributeError string
  | KeyError string
  | IndexError string
  | TypeError string
  | UnicodeEncodeError
  | UnboundLocalError string
  | OverflowError string
  | OSError string
  | BlockingIOError string
  | SocketTimeout
  | SystemExit int

text \<open>
  \<^verbatim>\<open>except Exception\<close> catches every exception but \<^verbatim>\<open>SystemExit\<close>; \<^verbatim>\<open>str(e)\<close> is the
  message of an exception.
\<close>

fun is_exception :: "py_exn \<Rightarrow> bool" where
  "is_exception (SystemExit c) = False"
| "is_exception e = True"

fun exn_str :: "py_exn \<Rightarrow> string" where
  "exn_str (ValueError m) = m"
| "exn_str (AttributeError m) = m"
| "exn_str (KeyError m) = m"
| "exn_str (IndexError m) = m"
| "exn_str (TypeError m) = m"
| "exn_str UnicodeEncodeError = ''surrogates not allowed''"
| "exn_str (UnboundLocalError m) = m"
| "exn_str (OverflowError m) = m"
| "exn_str (OSError m) = m"
| "exn_str (BlockingIOError m) = m"
| "exn_str SocketTimeout = ''timed out''"
| "exn_str (SystemExit c) = ''''"

text \<open>
  The argument of \<^verbatim>\<open>generate_stream_ids\<close> is any Python object. \<^verbatim>\<open>isinstance(x, int)\<close>
  holds of an \<^verbatim>\<open>int\<close> and of a \<^verbatim>\<open>bool\<close> (a subclass of \<^verbatim>\<open>int\<close>: \<^verbatim>\<open>True\<close> counts as 1);
  \<open>PyOther\<close> is an object of any other type, carried as its \<^verbatim>\<open>str()\<close>.
\<close>

datatype py_arg = PyInt int | PyBool bool | PyOther string

fun isinstance_int :: "py_arg \<Rightarrow> bool" where
  "isinstance_int (PyInt n) = True"
| "isinstance_int (PyBool b) = True"
| "isinstance_int (PyOther s) = False"

fun int_of_arg :: "py_arg \<Rightarrow> int" where
  "int_of_arg (PyInt n) = n"
| "int_of_arg (PyBool b) = (if b then 1 else 0)"
| "int_of_arg (PyOther s) = 0"

fun str_nat :: "nat \<Rightarrow> string" where
  "str_nat n = (if n < 10 then [char_of (48 + n)] else str_nat (n div 10) @ [char_of (48 + n mod 10)])"

definition str_int :: "int \<Rightarrow> string" where
  "str_int i = (if i < 0 then CHR ''-'' # str_nat (nat (- i)) else str_nat (nat i))"

fun str_arg :: "py_arg \<Rightarrow> string" where
  "str_arg (PyInt n) = str_int n"
| "str_arg (PyBool b) = (if b then ''True'' else ''False'')"
| "str_arg (PyOther s) = s"

text \<open>The text \<^verbatim>\<open>'name'\<close>, as Python quotes a name in a message.\<close>

definition quoted :: "string \<Rightarrow> string" where
  "quoted name = CHR 0x27 # name @ [CHR 0x27]"

text \<open>The \<^verbatim>\<open>AttributeError\<close> of an attribute read on \<^verbatim>\<open>None\<close>.\<close>

definition none_has_no :: "string \<Rightarrow> py_exn" where
  "none_has_no attr =
    AttributeError (quoted ''NoneType'' @ '' object has no attribute '' @ quoted attr)"

text \<open>
  \<^verbatim>\<open>bytes(body, 'utf-8')\<close>: UTF-8 of each code point; a surrogate cannot be encoded.
  (A Python \<^verbatim>\<open>str\<close> holds code points below \<open>0x110000\<close> only.)
\<close>

definition utf8_code_point :: "nat \<Rightarrow> py_exn + bytes" where
  "utf8_code_point c =
    (if c < 0x80 then Inr [of_nat c]
     else if c < 0x800 then Inr [of_nat (0xC0 + c div 64), of_nat (0x80 + c mod 64)]
     else if 0xD800 \<le> c \<and> c \<le> 0xDFFF then Inl UnicodeEncodeError
     else if c < 0x10000
       then Inr [of_nat (0xE0 + c div 4096), of_nat (0x80 + (c div 64) mod 64),
                 of_nat (0x80 + c mod 64)]
     else Inr [of_nat (0xF0 + c div 262144), of_nat (0x80 + (c div 4096) mod 64),
               of_nat (0x80 + (c div 64) mod 64), of_nat (0x80 + c mod 64)])"

fun bytes_utf8 :: "pystr \<Rightarrow> py_exn + bytes" where
  "bytes_utf8 [] = Inr []"
| "bytes_utf8 (c # cs) =
    (case utf8_code_point c of
       Inl e \<Rightarrow> Inl e
     | Inr b \<Rightarrow> (case bytes_utf8 cs of Inl e \<Rightarrow> Inl e | Inr bs \<Rightarrow> Inr (b @ bs)))"

text \<open>
  A timeout handed to \<^verbatim>\<open>settimeout\<close>: \<open>None\<close> is Python's \<^verbatim>\<open>None\<close>; a number of seconds,
  an infinite float, the float \<^verbatim>\<open>nan\<close>, or an object that is not a number.
\<close>

datatype py_number = Seconds real | Infinite | NaN | NotANumber

type_synonym py_timeout = "py_number option"

section \<open>HTTP/2 frames and the collaborating modules\<close>

text \<open>
  A frame is scapy's \<^verbatim>\<open>H2Frame(stream_id, flags) / payload\<close>; the flags are a Python
  set of names, \<^verbatim>\<open>'ES'\<close> the end-of-stream marker. Only a DATA frame has the attribute
  \<^verbatim>\<open>data\<close>.
\<close>

datatype h2setting = H2Setting int int

datatype h2_payload =
    H2HeadersFrame string
  | H2ContinuationFrame string
  | H2DataFrame bytes
  | H2SettingsFrame "h2setting list"
  | H2PingFrame string
  | H2GoAwayFrame int

record h2frame =
  stream_id :: int
  flags :: "string set"
  payload :: h2_payload

text \<open>
  The body as \<^verbatim>\<open>create_headers_frame\<close> receives it: \<^verbatim>\<open>None\<close>, the empty \<^verbatim>\<open>str\<close> (which
  \<^verbatim>\<open>if body:\<close> leaves unencoded) or the encoded bytes.
\<close>

datatype py_body = BodyNone | BodyStr pystr | BodyBytes bytes

datatype socket_obj = SocketObj "string \<times> int"

section \<open>The world outside the object\<close>

datatype recv_result = RecvData bytes | RecvNothing | RecvError string

text \<open>
  The mode \<^verbatim>\<open>settimeout\<close> puts a socket in: blocking (\<^verbatim>\<open>None\<close>), non-blocking (0) or with a
  timeout (a positive number).
\<close>

datatype socket_mode = Blocking | NonBlocking | TimeoutMode

text \<open>
  What the network does is a parameter of the world: \<open>connect_outcome proxy target\<close>
  is the message of the error \<^verbatim>\<open>connect\<close> raises, if any (\<open>proxy\<close> is the process-wide
  SOCKS default, once \<^verbatim>\<open>_create_socks_socket\<close> has set it); \<open>send_outcome k\<close> the
  message of the error the \<open>k\<close>-th call of \<^verbatim>\<open>send\<close> raises, if any; \<open>recv_outcome k\<close>
  what the network has for the \<open>k\<close>-th call of \<^verbatim>\<open>recv\<close>: data (no data when the peer has
  closed), nothing, or an error. What \<^verbatim>\<open>recv\<close> does when there is nothing depends on the
  mode of the socket, \<open>mode\<close>. \<open>timeout_fits x\<close> says whether the platform can hold a
  timeout of \<open>x\<close> seconds. \<open>n_send\<close> and \<open>n_recv\<close> count the calls made so far. \<open>wire\<close>
  lists the byte strings handed to a \<^verbatim>\<open>send\<close> that did not raise, oldest first; \<open>stdout\<close>
  lists the error reports printed (the progress lines, which start with \<^verbatim>\<open>+\<close>, are not
  recorded).
\<close>

record world =
  connect_outcome :: "(string option \<times> int option) option \<Rightarrow> string \<times> int \<Rightarrow> string option"
  send_outcome :: "nat \<Rightarrow> string option"
  recv_outcome :: "nat \<Rightarrow> recv_result"
  timeout_fits :: "real \<Rightarrow> bool"
  mode :: socket_mode
  default_proxy :: "(string option \<times> int option) option"
  n_send :: nat
  n_recv :: nat
  wire :: "bytes list"
  stdout :: "string list"

definition print :: "string \<Rightarrow> world \<Rightarrow> world" where
  "print line w = w\<lparr>stdout := stdout w @ [line]\<rparr>"

text \<open>
  The modules \<^verbatim>\<open>h2_frames\<close> and \<^verbatim>\<open>utils\<close> and scapy's serialisation \<^verbatim>\<open>bytes(frame)\<close> are
  not part of the class: every method takes them as the parameter \<open>ext\<close>.
  \<open>create_headers_frame\<close> takes method, authority, scheme, path, headers_string,
  stream_id and body, and returns the frames of an \<^verbatim>\<open>H2Seq\<close>. Building a frame and
  serialising it (\<open>frame_bytes\<close>) can raise.
\<close>

record collaborators =
  create_headers_frame ::
    "string \<Rightarrow> string \<Rightarrow> string \<Rightarrow> string \<Rightarrow> string \<Rightarrow> int \<Rightarrow> py_body \<Rightarrow> py_exn + h2frame list"
  create_settings_frame :: "h2setting list \<Rightarrow> py_exn + h2frame"
  create_go_away_frame :: "int \<Rightarrow> py_exn + h2frame"
  create_ping_frame :: "string \<Rightarrow> py_exn + h2frame"
  parse_response_frames_bytes ::
    "bytes \<Rightarrow> socket_obj option \<Rightarrow> bool \<Rightarrow> world \<Rightarrow> (py_exn + unit) \<times> world"
  make_header_names_small :: "string \<Rightarrow> string"
  frame_bytes :: "h2frame \<Rightarrow> py_exn + bytes"

text \<open>\<^verbatim>\<open>bytes(seq)\<close> of an \<^verbatim>\<open>H2Seq\<close>: its frames, one after the other.\<close>

fun seq_bytes :: "collaborators \<Rightarrow> h2frame list \<Rightarrow> py_exn + bytes" where
  "seq_bytes ext [] = Inr []"
| "seq_bytes ext (fr # frames) =
    (case frame_bytes ext fr of
       Inl e \<Rightarrow> Inl e
     | Inr b \<Rightarrow> (case seq_bytes ext frames of Inl e \<Rightarrow> Inl e | Inr bs \<Rightarrow> Inr (b @ bs)))"

text \<open>\<^verbatim>\<open>bytes(frame)\<close> of a frame that a \<^verbatim>\<open>create_..._frame\<close> call has just built.\<close>

definition built_bytes :: "collaborators \<Rightarrow> py_exn + h2frame \<Rightarrow> py_exn + bytes" where
  "built_bytes ext built = (case built of Inl e \<Rightarrow> Inl e | Inr fr \<Rightarrow> frame_bytes ext fr)"

section \<open>The connection object\<close>

record settings_entry =
  entry_id :: int
  entry_value :: "int option"

record h2conn =
  hostname :: string
  port_number :: int
  proxy_hostname :: "string option"
  proxy_port_number :: "int option"
  raw_socket :: "socket_obj option"
  read_timeout :: py_timeout
  last_used_stream_id :: int
  is_connection_closed :: bool
  H2_PREFACE :: bytes
  DEFAULT_SETTINGS :: "(string \<times> settings_entry) list"

type_synonym state = "h2conn \<times> world"

definition hex_preface :: bytes where
  "hex_preface = [0x50, 0x52, 0x49, 0x20, 0x2a, 0x20, 0x48, 0x54, 0x54, 0x50, 0x2f, 0x32,
     0x2e, 0x30, 0x0d, 0x0a, 0x0d, 0x0a, 0x53, 0x4d, 0x0d, 0x0a, 0x0d, 0x0a]"

definition default_settings_table :: "(string \<times> settings_entry) list" where
  "default_settings_table =
    [(''SETTINGS_HEADER_TABLE_SIZE'', \<lparr>entry_id = 1, entry_value = Some 4096\<rparr>),
     (''SETTINGS_ENABLE_PUSH'', \<lparr>entry_id = 2, entry_value = Some 0\<rparr>),
     (''SETTINGS_MAX_CONCURRENT_STREAMS'', \<lparr>entry_id = 3, entry_value = Some 100\<rparr>),
     (''SETTINGS_INITIAL_WINDOW_SIZE'', \<lparr>entry_id = 4, entry_value = Some 65535\<rparr>),
     (''SETTINGS_MAX_FRAME_SIZE'', \<lparr>entry_id = 5, entry_value = Some 16384\<rparr>),
     (''SETTINGS_MAX_HEADER_LIST_SIZE'', \<lparr>entry_id = 6, entry_value = None\<rparr>)]"

text \<open>\<^verbatim>\<open>__init__\<close>: no I/O. (\<^verbatim>\<open>read_timeout\<close> defaults to 3, the proxy to \<^verbatim>\<open>None\<close>.)\<close>

definition init :: "string \<Rightarrow> int \<Rightarrow> py_timeout \<Rightarrow> string option \<Rightarrow> int option \<Rightarrow> h2conn" where
  "init host port rd_timeout proxy_host proxy_port =
    \<lparr>hostname = host, port_number = port, proxy_hostname = proxy_host,
     proxy_port_number = proxy_port, raw_socket = None, read_timeout = rd_timeout,
     last_used_stream_id = 1, is_connection_closed = True, H2_PREFACE = hex_preface,
     DEFAULT_SETTINGS = default_settings_table\<rparr>"

section \<open>Transport\<close>

text \<open>
  \<^verbatim>\<open>_create_socks_socket\<close>: sets the process-wide SOCKS default and replaces
  \<^verbatim>\<open>socket.socket\<close>, then connects; an error of \<^verbatim>\<open>connect\<close> leaves the method. A new
  socket is in blocking mode.
\<close>

definition create_socks_socket :: "state \<Rightarrow> (py_exn + unit) \<times> state" where
  "create_socks_socket s =
    (case s of (self, w) \<Rightarrow>
      let proxy = Some (proxy_hostname self, proxy_port_number self);
          w1 = w\<lparr>default_proxy := proxy\<rparr>
      in case connect_outcome w1 proxy (hostname self, port_number self) of
           Some m \<Rightarrow> (Inl (OSError m), self, w1)
         | None \<Rightarrow>
             (Inr (), self\<lparr>raw_socket := Some (SocketObj (hostname self, port_number self))\<rparr>,
              w1\<lparr>mode := Blocking\<rparr>))"

text \<open>\<^verbatim>\<open>if self.proxy_hostname:\<close> holds of a non-empty string.\<close>

definition truthy_str :: "string option \<Rightarrow> bool" where
  "truthy_str x = (case x of None \<Rightarrow> False | Some t \<Rightarrow> t \<noteq> [])"

definition create_raw_socket :: "state \<Rightarrow> (py_exn + unit) \<times> state" where
  "create_raw_socket s =
    (case s of (self, w) \<Rightarrow>
      if truthy_str (proxy_hostname self) then create_socks_socket s
      else case connect_outcome w (default_proxy w) (hostname self, port_number self) of
             Some m \<Rightarrow> (Inl (OSError m), self, w)
           | None \<Rightarrow>
               (Inr (), self\<lparr>raw_socket := Some (SocketObj (hostname self, port_number self))\<rparr>,
                w\<lparr>mode := Blocking\<rparr>))"

definition get_using_socket :: "h2conn \<Rightarrow> socket_obj option" where
  "get_using_socket self = raw_socket self"

text \<open>
  \<^verbatim>\<open>send_bytes\<close>: every exception of the \<^verbatim>\<open>send\<close> (also the \<^verbatim>\<open>AttributeError\<close> when there
  is no socket) is caught and printed; the method returns the time of sending
  (\<open>Some ()\<close>) or \<^verbatim>\<open>None\<close>.
\<close>

definition send_bytes :: "bytes \<Rightarrow> state \<Rightarrow> unit option \<times> state" where
  "send_bytes bytes_data s =
    (case s of (self, w) \<Rightarrow>
      case get_using_socket self of
        None \<Rightarrow>
          (None, self, print (''# Error in sending bytes: '' @ exn_str (none_has_no ''send'')) w)
      | Some using_socket \<Rightarrow>
          (case send_outcome w (n_send w) of
             None \<Rightarrow>
               (Some (), self, w\<lparr>n_send := Suc (n_send w), wire := wire w @ [bytes_data]\<rparr>)
           | Some m \<Rightarrow>
               (None, self,
                print (''# Error in sending bytes: '' @ exn_str (OSError m))
                  (w\<lparr>n_send := Suc (n_send w)\<rparr>))))"

text \<open>
  \<^verbatim>\<open>self.send_bytes(bytes(...))\<close>: the argument is evaluated first, outside the \<^verbatim>\<open>try\<close> of
  \<^verbatim>\<open>send_bytes\<close>, so an exception of it leaves the calling method.
\<close>

definition send_built :: "py_exn + bytes \<Rightarrow> state \<Rightarrow> (py_exn + unit) \<times> state" where
  "send_built built s =
    (case built of Inl e \<Rightarrow> (Inl e, s) | Inr b \<Rightarrow> (Inr (), snd (send_bytes b s)))"

definition send_frames ::
  "collaborators \<Rightarrow> h2frame list \<Rightarrow> state \<Rightarrow> (py_exn + unit) \<times> state" where
  "send_frames ext frames s = send_built (seq_bytes ext frames) s"

definition send_h2_connection_preface :: "state \<Rightarrow> unit \<times> state" where
  "send_h2_connection_preface s = ((), snd (send_bytes (H2_PREFACE (fst s)) s))"

definition send_ping_frame ::
  "collaborators \<Rightarrow> string \<Rightarrow> state \<Rightarrow> (py_exn + unit) \<times> state" where
  "send_ping_frame ext ping_data s =
    (let ping_frame = create_ping_frame ext ping_data
     in send_built (built_bytes ext ping_frame) s)"

section \<open>Reading\<close>

text \<open>
  \<^verbatim>\<open>settimeout\<close>: \<^verbatim>\<open>None\<close> makes the socket blocking, 0 non-blocking, a positive number
  gives it a timeout. It raises for a negative number, for \<^verbatim>\<open>nan\<close>, for an infinite
  number and one too large for the platform, and for what is not a number.
\<close>

definition settimeout :: "py_timeout \<Rightarrow> world \<Rightarrow> py_exn + world" where
  "settimeout t w =
    (case t of
       None \<Rightarrow> Inr (w\<lparr>mode := Blocking\<rparr>)
     | Some (Seconds x) \<Rightarrow>
         if x < 0 then Inl (ValueError ''Timeout value out of range'')
         else if \<not> timeout_fits w x then Inl (OverflowError ''timeout doesn't fit into C timeval'')
         else Inr (w\<lparr>mode := (if x = 0 then NonBlocking else TimeoutMode)\<rparr>)
     | Some Infinite \<Rightarrow> Inl (OverflowError ''cannot convert float infinity to integer'')
     | Some NaN \<Rightarrow> Inl (ValueError ''Invalid value NaN (not a number)'')
     | Some NotANumber \<Rightarrow> Inl (TypeError ''an integer or float is required''))"

text \<open>
  \<^verbatim>\<open>recv(4096)\<close>. When the network has nothing, a socket with a timeout raises
  \<^verbatim>\<open>socket.timeout\<close>, a non-blocking socket raises \<^verbatim>\<open>BlockingIOError\<close>, and a blocking
  socket waits: the call never returns (\<open>None\<close>).
\<close>

definition recv :: "world \<Rightarrow> ((py_exn + bytes) \<times> world) option" where
  "recv w =
    (case recv_outcome w (n_recv w) of
       RecvData d \<Rightarrow> Some (Inr d, w\<lparr>n_recv := Suc (n_recv w)\<rparr>)
     | RecvError m \<Rightarrow> Some (Inl (OSError m), w\<lparr>n_recv := Suc (n_recv w)\<rparr>)
     | RecvNothing \<Rightarrow>
         (case mode w of
            TimeoutMode \<Rightarrow> Some (Inl SocketTimeout, w\<lparr>n_recv := Suc (n_recv w)\<rparr>)
          | NonBlocking \<Rightarrow>
              Some (Inl (BlockingIOError ''Resource temporarily unavailable''),
                    w\<lparr>n_recv := Suc (n_recv w)\<rparr>)
          | Blocking \<Rightarrow> None))"

text \<open>
  The loop \<^verbatim>\<open>while True: data = recv(4096) ...\<close>. It ends at an empty read and at
  \<^verbatim>\<open>socket.timeout\<close> (both \<^verbatim>\<open>break\<close>), and at any other exception of \<^verbatim>\<open>recv\<close>, which
  leaves the method; as long as data arrives it goes on, so it need not end: \<open>None\<close> is
  the run that never returns.
\<close>

partial_function (option) recv_loop :: "bytes \<Rightarrow> world \<Rightarrow> ((py_exn + bytes) \<times> world) option" where
  "recv_loop response w =
    (case recv w of
       None \<Rightarrow> None
     | Some (Inr d, w1) \<Rightarrow>
         if d = [] then Some (Inr response, w1) else recv_loop (response @ d) w1
     | Some (Inl e, w1) \<Rightarrow>
         if e = SocketTimeout then Some (Inr response, w1) else Some (Inl e, w1))"

text \<open>
  \<^verbatim>\<open>read_response_from_socket\<close>: an exception of \<^verbatim>\<open>settimeout\<close> (also the
  \<^verbatim>\<open>AttributeError\<close> when there is no socket) makes it return \<^verbatim>\<open>b''\<close> at once.
\<close>

definition read_response_from_socket ::
  "py_timeout \<Rightarrow> state \<Rightarrow> ((py_exn + bytes) \<times> state) option" where
  "read_response_from_socket timeout_arg s =
    (case s of (self, w) \<Rightarrow>
      let timeout = (if timeout_arg = None then read_timeout self else timeout_arg)
      in case get_using_socket self of
           None \<Rightarrow> Some (Inr [], self, w)
         | Some using_socket \<Rightarrow>
             (case settimeout timeout w of
                Inl e \<Rightarrow> Some (Inr [], self, w)
              | Inr w0 \<Rightarrow>
                  (case recv_loop [] w0 of
                     None \<Rightarrow> None
                   | Some (r, w1) \<Rightarrow> Some (r, self, w1))))"

definition old_parse_frames_bytes ::
  "collaborators \<Rightarrow> bytes \<Rightarrow> bool \<Rightarrow> state \<Rightarrow> (py_exn + unit) \<times> state" where
  "old_parse_frames_bytes ext frame_data is_verbose s =
    (case s of (self, w) \<Rightarrow>
      case parse_response_frames_bytes ext frame_data (get_using_socket self) is_verbose w of
        (r, w1) \<Rightarrow> (r, self, w1))"

section \<open>Handshake and teardown\<close>

text \<open>
  The loop of \<^verbatim>\<open>_send_client_initial_settings_frame\<close> over the keys of the table:
  an entry whose value is \<^verbatim>\<open>None\<close> is skipped, every other one is appended.
\<close>

fun settings_loop ::
  "(string \<times> settings_entry) list \<Rightarrow> string list \<Rightarrow> h2setting list \<Rightarrow> py_exn + h2setting list" where
  "settings_loop table [] settings_list = Inr settings_list"
| "settings_loop table (k # keys) settings_list =
    (case map_of table k of
       None \<Rightarrow> Inl (KeyError k)
     | Some entry \<Rightarrow>
         (case entry_value entry of
            None \<Rightarrow> settings_loop table keys settings_list
          | Some v \<Rightarrow> settings_loop table keys (settings_list @ [H2Setting (entry_id entry) v])))"

definition send_client_initial_settings_frame ::
  "collaborators \<Rightarrow> state \<Rightarrow> (py_exn + unit) \<times> state" where
  "send_client_initial_settings_frame ext s =
    (case settings_loop (DEFAULT_SETTINGS (fst s)) (map fst (DEFAULT_SETTINGS (fst s))) [] of
       Inl e \<Rightarrow> (Inl e, s)
     | Inr settings_list \<Rightarrow>
         (let client_initial_settings_frame = create_settings_frame ext settings_list
          in send_built (built_bytes ext client_initial_settings_frame) s))"

text \<open>
  \<^verbatim>\<open>setup_connection\<close>: an exception that leaves one of the three steps is printed and
  the process exits with status 1; otherwise the closed flag is cleared. (An error of
  \<^verbatim>\<open>send\<close> does not leave its step: \<^verbatim>\<open>send_bytes\<close> has caught it already.)
\<close>

definition setup_failed :: "py_exn \<Rightarrow> state \<Rightarrow> (py_exn + unit) \<times> state" where
  "setup_failed e s =
    (if is_exception e
     then (Inl (SystemExit 1), fst s,
           print (''# Error in setting the connection up : '' @ exn_str e) (snd s))
     else (Inl e, s))"

definition setup_connection :: "collaborators \<Rightarrow> state \<Rightarrow> (py_exn + unit) \<times> state" where
  "setup_connection ext s =
    (case create_raw_socket s of
       (Inl e, s1) \<Rightarrow> setup_failed e s1
     | (Inr u, s1) \<Rightarrow>
         (case send_client_initial_settings_frame ext (snd (send_h2_connection_preface s1)) of
            (Inl e, s3) \<Rightarrow> setup_failed e s3
          | (Inr u, s3) \<Rightarrow> (Inr (), (fst s3)\<lparr>is_connection_closed := False\<rparr>, snd s3)))"

text \<open>
  \<^verbatim>\<open>close_connection\<close>: the GOAWAY frame goes through \<^verbatim>\<open>send_bytes\<close>; then
  \<^verbatim>\<open>self.raw_socket.close()\<close>, which raises when \<^verbatim>\<open>raw_socket\<close> is \<^verbatim>\<open>None\<close>.
\<close>

definition close_connection :: "collaborators \<Rightarrow> state \<Rightarrow> (py_exn + unit) \<times> state" where
  "close_connection ext s =
    (let go_away_frame = create_go_away_frame ext 0
     in case send_built (built_bytes ext go_away_frame) s of
          (Inl e, s1) \<Rightarrow> (Inl e, s1)
        | (Inr u, self, w) \<Rightarrow>
            (case raw_socket self of
               None \<Rightarrow> (Inl (none_has_no ''close''), self, w)
             | Some sock \<Rightarrow>
                 (Inr (), self\<lparr>raw_socket := None, is_connection_closed := True\<rparr>, w)))"

section \<open>Stream identifiers\<close>

text \<open>\<^verbatim>\<open>for i in range(start, stop, 2): stream_ids_list.append(i)\<close>\<close>

function range_step2 :: "int \<Rightarrow> int \<Rightarrow> int list" where
  "range_step2 i stop = (if i < stop then i # range_step2 (i + 2) stop else [])"
  by pat_completeness auto
termination
  by (relation "measure (\<lambda>(i, stop). nat (stop - i))") auto

declare range_step2.simps [simp del]

definition start_stream_id :: "h2conn \<Rightarrow> int" where
  "start_stream_id self = last_used_stream_id self + 2"

definition end_stream_id :: "int \<Rightarrow> h2conn \<Rightarrow> int" where
  "end_stream_id number_of_streams self = (number_of_streams * 2) + start_stream_id self"

text \<open>The defensive step: an even \<^verbatim>\<open>last_used_stream_id\<close> moves to the next odd value.\<close>

definition normalize_last_used :: "h2conn \<Rightarrow> h2conn" where
  "normalize_last_used self =
    (if last_used_stream_id self mod 2 = 0
     then self\<lparr>last_used_stream_id := last_used_stream_id self + 1\<rparr> else self)"

definition positive_integer_msg :: string where
  "positive_integer_msg = ''number_of_streams must be a positive integer''"

definition range_problem_msg :: string where
  "range_problem_msg =
    ''There's a problem with the stream_id range. Please check the number_of_streams value.''"

definition generate_stream_ids :: "py_arg \<Rightarrow> state \<Rightarrow> (py_exn + int list) \<times> state" where
  "generate_stream_ids number_of_streams s =
    (case s of (self, w) \<Rightarrow>
      if \<not> isinstance_int number_of_streams \<or> int_of_arg number_of_streams \<le> 0
      then (Inl (ValueError positive_integer_msg),
            self,
            print (''The number of streams passed to the function generate_stream_ids is: ''
                     @ str_arg number_of_streams) w)
      else
        let self1 = normalize_last_used self;
            stream_ids_list =
              range_step2 (start_stream_id self1) (end_stream_id (int_of_arg number_of_streams) self1)
        in if end_stream_id (int_of_arg number_of_streams) self1 \<le> start_stream_id self1
           then (Inl (ValueError range_problem_msg), self1, w)
           else if stream_ids_list = [] then (Inl (IndexError ''list index out of range''), self1, w)
           else (Inr stream_ids_list, self1\<lparr>last_used_stream_id := last stream_ids_list\<rparr>, w))"

section \<open>Building requests\<close>

text \<open>\<^verbatim>\<open>if body: body = bytes(body, 'utf-8')\<close>: \<^verbatim>\<open>None\<close> and the empty string stay as they are.\<close>

definition encode_body :: "pystr option \<Rightarrow> py_exn + py_body" where
  "encode_body body =
    (case body of
       None \<Rightarrow> Inr BodyNone
     | Some t \<Rightarrow>
         if t = [] then Inr (BodyStr t)
         else (case bytes_utf8 t of Inl e \<Rightarrow> Inl e | Inr b \<Rightarrow> Inr (BodyBytes b)))"

text \<open>\<^verbatim>\<open>frames[-1]\<close>, \<^verbatim>\<open>frame.data\<close> and \<^verbatim>\<open>frame.flags.remove(name)\<close>, with their exceptions.\<close>

definition last_frame :: "h2frame list \<Rightarrow> py_exn + h2frame" where
  "last_frame frames = (if frames = [] then Inl (IndexError ''list index out of range'') else Inr (last frames))"

definition frame_data :: "h2frame \<Rightarrow> py_exn + bytes" where
  "frame_data fr = (case payload fr of H2DataFrame d \<Rightarrow> Inr d | _ \<Rightarrow> Inl (AttributeError ''data''))"

definition flags_remove :: "string \<Rightarrow> h2frame \<Rightarrow> py_exn + h2frame" where
  "flags_remove name fr =
    (if name \<in> flags fr then Inr (fr\<lparr>flags := flags fr - {name}\<rparr>) else Inl (KeyError (quoted name)))"

text \<open>The slices \<^verbatim>\<open>data[-1:]\<close> and \<^verbatim>\<open>data[:-1]\<close>.\<close>

definition slice_last :: "bytes \<Rightarrow> bytes" where
  "slice_last d = (if d = [] then [] else [last d])"

definition slice_but_last :: "bytes \<Rightarrow> bytes" where
  "slice_but_last d = butlast d"

definition lowercase_if :: "collaborators \<Rightarrow> bool \<Rightarrow> string \<Rightarrow> string" where
  "lowercase_if ext check_headers_lowercase headers_string =
    (if check_headers_lowercase then make_header_names_small ext headers_string else headers_string)"

text \<open>
  \<^verbatim>\<open>create_single_packet_http2_request_frames\<close>. The arguments are those of the Python
  method, in its order (\<open>meth\<close> is \<^verbatim>\<open>method\<close>); the result is the pair
  \<^verbatim>\<open>(request_frames, new_data_frame)\<close>, the first as the list of its frames.
\<close>

definition split_with_body :: "int \<Rightarrow> h2frame list \<Rightarrow> py_exn + h2frame list \<times> h2frame" where
  "split_with_body sid request_frames =
    (case last_frame request_frames of
       Inl e \<Rightarrow> Inl e
     | Inr fr \<Rightarrow>
         (case frame_data fr of
            Inl e \<Rightarrow> Inl e
          | Inr d \<Rightarrow>
              (let last_byte = slice_last d;
                   fr1 = fr\<lparr>payload := H2DataFrame (slice_but_last d)\<rparr>
               in case flags_remove ''ES'' fr1 of
                    Inl e \<Rightarrow> Inl e
                  | Inr fr2 \<Rightarrow>
                      Inr (butlast request_frames @ [fr2],
                           \<lparr>stream_id = sid, flags = {''ES''}, payload = H2DataFrame last_byte\<rparr>))))"

definition split_without_body :: "int \<Rightarrow> h2frame list \<Rightarrow> py_exn + h2frame list \<times> h2frame" where
  "split_without_body sid request_frames =
    (case last_frame request_frames of
       Inl e \<Rightarrow> Inl e
     | Inr fr \<Rightarrow>
         (case flags_remove ''ES'' fr of
            Inl e \<Rightarrow> Inl e
          | Inr fr2 \<Rightarrow>
              Inr (butlast request_frames @ [fr2],
                   \<lparr>stream_id = sid, flags = {''ES''}, payload = H2DataFrame []\<rparr>)))"

definition create_single_packet_http2_request_frames ::
  "collaborators \<Rightarrow> string \<Rightarrow> string \<Rightarrow> string \<Rightarrow> string \<Rightarrow> int \<Rightarrow> pystr option \<Rightarrow> bool \<Rightarrow> string
     \<Rightarrow> py_exn + h2frame list \<times> h2frame" where
  "create_single_packet_http2_request_frames ext authority scheme path headers_string sid body
      check_headers_lowercase meth =
    (case encode_body body of
       Inl e \<Rightarrow> Inl e
     | Inr body1 \<Rightarrow>
         (case create_headers_frame ext meth authority scheme path
                 (lowercase_if ext check_headers_lowercase headers_string) sid body1 of
            Inl e \<Rightarrow> Inl e
          | Inr request_frames \<Rightarrow>
              if body1 \<noteq> BodyNone then split_with_body sid request_frames
              else split_without_body sid request_frames))"

definition create_simple_http2_request ::
  "collaborators \<Rightarrow> string \<Rightarrow> string \<Rightarrow> string \<Rightarrow> string \<Rightarrow> string \<Rightarrow> int \<Rightarrow> pystr option \<Rightarrow> bool
     \<Rightarrow> py_exn + h2frame list" where
  "create_simple_http2_request ext meth authority scheme path headers_string sid body
      check_headers_lowercase =
    (case encode_body body of
       Inl e \<Rightarrow> Inl e
     | Inr body1 \<Rightarrow>
         create_headers_frame ext meth authority scheme path
           (lowercase_if ext check_headers_lowercase headers_string) sid body1)"

text \<open>
  \<^verbatim>\<open>send_simple_http2_request\<close> binds \<^verbatim>\<open>body_bytes\<close> only under \<^verbatim>\<open>if body:\<close>, and reads
  it in every case.
\<close>

definition send_simple_http2_request ::
  "collaborators \<Rightarrow> string \<Rightarrow> string \<Rightarrow> string \<Rightarrow> string \<Rightarrow> string \<Rightarrow> int \<Rightarrow> pystr option \<Rightarrow> bool
     \<Rightarrow> state \<Rightarrow> (py_exn + unit) \<times> state" where
  "send_simple_http2_request ext meth authority scheme path headers_string sid body
      check_headers_lowercase s =
    (case encode_body body of
       Inl e \<Rightarrow> (Inl e, s)
     | Inr (BodyBytes body_bytes) \<Rightarrow>
         (case create_headers_frame ext meth authority scheme path
                 (lowercase_if ext check_headers_lowercase headers_string) sid (BodyBytes body_bytes) of
            Inl e \<Rightarrow> (Inl e, s)
          | Inr request_frames \<Rightarrow> send_built (seq_bytes ext request_frames) s)
     | Inr other \<Rightarrow>
         (Inl (UnboundLocalError ''body_bytes''), s))"

section \<open>The methods as operations on a connection\<close>

text \<open>
  One constructor for each method of the class that runs in the caller's thread.
  (\<^verbatim>\<open>start_thread_response_parsing\<close> starts the listener thread, which calls
  \<^verbatim>\<open>read_response_from_socket\<close> and \<^verbatim>\<open>old_parse_frames_bytes\<close> while the closed flag is
  false and assigns no attribute itself; threads are not modelled.)
\<close>

datatype operation =
    SetupConnection
  | CreateSocksSocket
  | CreateRawSocket
  | SendH2ConnectionPreface
  | GetUsingSocket
  | SendBytes bytes
  | SendFrames "h2frame list"
  | ReadResponseFromSocket py_timeout
  | OldParseFramesBytes bytes bool
  | SendPingFrame string
  | CloseConnection
  | SendClientInitialSettingsFrame
  | GenerateStreamIds py_arg
  | CreateSinglePacketHttp2RequestFrames string string string string int "pystr option" bool string
  | CreateSimpleHttp2Request string string string string string int "pystr option" bool
  | SendSimpleHttp2Request string string string string string int "pystr option" bool

text \<open>How a call ended: with an exception or not. \<open>None\<close> is the call that never returns.\<close>

definition ended :: "('e + 'a) \<times> state \<Rightarrow> ('e option \<times> state) option" where
  "ended r = Some (case fst r of Inl e \<Rightarrow> Some e | Inr v \<Rightarrow> None, snd r)"

fun exec :: "collaborators \<Rightarrow> operation \<Rightarrow> state \<Rightarrow> (py_exn option \<times> state) option" where
  "exec ext SetupConnection s = ended (setup_connection ext s)"
| "exec ext CreateSocksSocket s = ended (create_socks_socket s)"
| "exec ext CreateRawSocket s = ended (create_raw_socket s)"
| "exec ext SendH2ConnectionPreface s = Some (None, snd (send_h2_connection_preface s))"
| "exec ext GetUsingSocket s = Some (None, s)"
| "exec ext (SendBytes b) s = Some (None, snd (send_bytes b s))"
| "exec ext (SendFrames fs) s = ended (send_frames ext fs s)"
| "exec ext (ReadResponseFromSocket t) s =
     (case read_response_from_socket t s of None \<Rightarrow> None | Some r \<Rightarrow> ended r)"
| "exec ext (OldParseFramesBytes b v) s = ended (old_parse_frames_bytes ext b v s)"
| "exec ext (SendPingFrame d) s = ended (send_ping_frame ext d s)"
| "exec ext CloseConnection s = ended (close_connection ext s)"
| "exec ext SendClientInitialSettingsFrame s = ended (send_client_initial_settings_frame ext s)"
| "exec ext (GenerateStreamIds n) s = ended (generate_stream_ids n s)"
| "exec ext (CreateSinglePacketHttp2RequestFrames authority scheme path headers_string sid body chk meth) s =
     ended (create_single_packet_http2_request_frames ext authority scheme path headers_string sid
              body chk meth, s)"
| "exec ext (CreateSimpleHttp2Request meth authority scheme path headers_string sid body chk) s =
     ended (create_simple_http2_request ext meth authority scheme path headers_string sid body chk, s)"
| "exec ext (SendSimpleHttp2Request meth authority scheme path headers_string sid body chk) s =
     ended (send_simple_http2_request ext meth authority scheme path headers_string sid body chk s)"

text \<open>A caller that makes the calls of a list one after the other, whatever each raises.\<close>

fun run :: "collaborators \<Rightarrow> operation list \<Rightarrow> state \<Rightarrow> state option" where
  "run ext [] s = Some s"
| "run ext (c # calls) s =
    (case exec ext c s of None \<Rightarrow> None | Some (r, s1) \<Rightarrow> run ext calls s1)"

section \<open>Instances for the examples\<close>

text \<open>
  A network on which every connect and send succeeds and nothing arrives, on a
  platform that holds timeouts up to \<open>2 ^ 63\<close> nanoseconds, and collaborators that build
  one HEADERS frame, followed by one DATA frame when there is a body; they are used at
  the concrete inputs below only.
\<close>

definition quiet_world :: world where
  "quiet_world =
    \<lparr>connect_outcome = (\<lambda>proxy target. None), send_outcome = (\<lambda>k. None),
     recv_outcome = (\<lambda>k. RecvNothing), timeout_fits = (\<lambda>x. x \<le> 9223372036),
     mode = Blocking, default_proxy = None, n_send = 0, n_recv = 0, wire = [], stdout = []\<rparr>"

definition example_headers_frame ::
  "string \<Rightarrow> string \<Rightarrow> string \<Rightarrow> string \<Rightarrow> string \<Rightarrow> int \<Rightarrow> py_body \<Rightarrow> py_exn + h2frame list" where
  "example_headers_frame meth authority scheme path headers_string sid body =
    (case body of
       BodyBytes b \<Rightarrow>
         Inr [\<lparr>stream_id = sid, flags = {''EH''}, payload = H2HeadersFrame headers_string\<rparr>,
              \<lparr>stream_id = sid, flags = {''ES''}, payload = H2DataFrame b\<rparr>]
     | _ \<Rightarrow>
         Inr [\<lparr>stream_id = sid, flags = {''ES'', ''EH''}, payload = H2HeadersFrame headers_string\<rparr>])"

text \<open>
  The same, for a header block longer than \<open>max_frm_sz\<close>: as scapy lays it out, a
  HEADERS frame followed by a CONTINUATION frame, the end-of-headers marker on the
  latter and the end-of-stream marker, when there is no body, on the former.
\<close>

definition continued_headers_frame ::
  "nat \<Rightarrow> string \<Rightarrow> string \<Rightarrow> string \<Rightarrow> string \<Rightarrow> string \<Rightarrow> int \<Rightarrow> py_body
     \<Rightarrow> py_exn + h2frame list" where
  "continued_headers_frame max_frm_sz meth authority scheme path headers_string sid body =
    (if length headers_string \<le> max_frm_sz
     then example_headers_frame meth authority scheme path headers_string sid body
     else
       (case body of
          BodyBytes b \<Rightarrow>
            Inr [\<lparr>stream_id = sid, flags = {},
                   payload = H2HeadersFrame (take max_frm_sz headers_string)\<rparr>,
                 \<lparr>stream_id = sid, flags = {''EH''},
                   payload = H2ContinuationFrame (drop max_frm_sz headers_string)\<rparr>,
                 \<lparr>stream_id = sid, flags = {''ES''}, payload = H2DataFrame b\<rparr>]
        | _ \<Rightarrow>
            Inr [\<lparr>stream_id = sid, flags = {''ES''},
                   payload = H2HeadersFrame (take max_frm_sz headers_string)\<rparr>,
                 \<lparr>stream_id = sid, flags = {''EH''},
                   payload = H2ContinuationFrame (drop max_frm_sz headers_string)\<rparr>]))"

definition example_frame_bytes :: "h2frame \<Rightarrow> bytes" where
  "example_frame_bytes fr =
    (case payload fr of
       H2DataFrame d \<Rightarrow> 0 # d
     | H2HeadersFrame h \<Rightarrow> [1]
     | H2SettingsFrame l \<Rightarrow> 4 # concat (map (\<lambda>x. case x of H2Setting i v \<Rightarrow> [of_int i]) l)
     | H2PingFrame d \<Rightarrow> [6]
     | H2GoAwayFrame c \<Rightarrow> [7, of_int c]
     | H2ContinuationFrame h \<Rightarrow> [9])"

definition example_ext :: collaborators where
  "example_ext =
    \<lparr>create_headers_frame = example_headers_frame,
     create_settings_frame = (\<lambda>l. Inr \<lparr>stream_id = 0, flags = {}, payload = H2SettingsFrame l\<rparr>),
     create_go_away_frame = (\<lambda>c. Inr \<lparr>stream_id = 0, flags = {}, payload = H2GoAwayFrame c\<rparr>),
     create_ping_frame = (\<lambda>d. Inr \<lparr>stream_id = 0, flags = {}, payload = H2PingFrame d\<rparr>),
     parse_response_frames_bytes = (\<lambda>b sock v w. (Inr (), w)),
     make_header_names_small = (\<lambda>h. h),
     frame_bytes = (\<lambda>fr. Inr (example_frame_bytes fr))\<rparr>"

definition continued_ext :: "nat \<Rightarrow> collaborators" where
  "continued_ext max_frm_sz =
    example_ext\<lparr>create_headers_frame := continued_headers_frame max_frm_sz\<rparr>"

section \<open>Notions the properties are stated with\<close>

text \<open>
  The entries of a settings table that have a value, as settings, in the order of
  the table.
\<close>

definition transmitted_entries :: "(string \<times> settings_entry) list \<Rightarrow> h2setting list" where
  "transmitted_entries table =
    map (\<lambda>(k, entry). H2Setting (entry_id entry) (the (entry_value entry)))
      (filter (\<lambda>(k, entry). entry_value entry \<noteq> None) table)"

text \<open>The bytes of the body a frame carries (none unless it is a DATA frame), and those of a group.\<close>

definition frame_payload_bytes :: "h2frame \<Rightarrow> bytes" where
  "frame_payload_bytes fr = (case payload fr of H2DataFrame d \<Rightarrow> d | _ \<Rightarrow> [])"

definition group_payload :: "h2frame list \<Rightarrow> bytes" where
  "group_payload frames = concat (map frame_payload_bytes frames)"

definition end_of_stream :: "h2frame \<Rightarrow> bool" where
  "end_of_stream fr = (''ES'' \<in> flags fr)"

text \<open>
  What is assumed of the frames \<^verbatim>\<open>h2_frames.create_headers_frame\<close> returns for a request,
  a module that is not among the sources; it is what the specification says of the
  frame codec: the sequence is not empty and its last frame, and no other, carries the
  end-of-stream marker; for a body, the DATA payloads together are the body, and the
  last frame is a DATA frame with at least one byte.
\<close>

definition codec_frames_for :: "py_body \<Rightarrow> h2frame list \<Rightarrow> bool" where
  "codec_frames_for body frames =
    (frames \<noteq> [] \<and> end_of_stream (last frames)
     \<and> list_all (\<lambda>fr. \<not> end_of_stream fr) (butlast frames)
     \<and> (case body of
          BodyBytes b \<Rightarrow>
            group_payload frames = b
            \<and> (case payload (last frames) of H2DataFrame d \<Rightarrow> d \<noteq> [] | _ \<Rightarrow> False)
        | _ \<Rightarrow> True))"

text \<open>
  The connect of \<^verbatim>\<open>_create_raw_socket\<close>: the proxy it goes through (that of the object
  when it has one, which then becomes the process-wide default; else the default) and
  the answer of the network, \<open>Some\<close> the message of the error raised.
\<close>

definition world_after_connect :: "h2conn \<Rightarrow> world \<Rightarrow> world" where
  "world_after_connect self w =
    (if truthy_str (proxy_hostname self)
     then w\<lparr>default_proxy := Some (proxy_hostname self, proxy_port_number self)\<rparr> else w)"

definition connect_error :: "h2conn \<Rightarrow> world \<Rightarrow> string option" where
  "connect_error self w =
    connect_outcome w (default_proxy (world_after_connect self w)) (hostname self, port_number self)"

text \<open>
  What arrives: \<open>inbound m f k chunks\<close> when the calls of \<^verbatim>\<open>recv\<close> from the \<open>k\<close>-th on
  return the non-empty \<open>chunks\<close>, one each, and at the call after them either the peer
  has closed (the read is empty) or nothing arrives and the socket, in mode \<open>m\<close>, has a
  timeout (the read times out).
\<close>

fun inbound :: "socket_mode \<Rightarrow> (nat \<Rightarrow> recv_result) \<Rightarrow> nat \<Rightarrow> bytes list \<Rightarrow> bool" where
  "inbound m f k [] = (f k = RecvData [] \<or> (f k = RecvNothing \<and> m = TimeoutMode))"
| "inbound m f k (c # cs) = (f k = RecvData c \<and> c \<noteq> [] \<and> inbound m f (Suc k) cs)"

text \<open>The timeout \<^verbatim>\<open>read_response_from_socket\<close> hands to \<^verbatim>\<open>settimeout\<close>.\<close>

definition effective_timeout :: "py_timeout \<Rightarrow> h2conn \<Rightarrow> py_timeout" where
  "effective_timeout timeout_arg self = (if timeout_arg = None then read_timeout self else timeout_arg)"

text \<open>A connection after a successful \<^verbatim>\<open>setup_connection\<close>, for the examples.\<close>

definition connected_example :: h2conn where
  "connected_example =
    (init ''h'' 443 None None None)\<lparr>raw_socket := Some (SocketObj (''h'', 443)),
                                    is_connection_closed := False\<rparr>"

section \<open>What each method leaves unchanged\<close>

lemma send_bytes_self: "fst (snd (send_bytes b s)) = fst s"
  by (cases s) (simp add: send_bytes_def split: option.splits)

lemma create_socks_socket_self:
  "fst (snd (create_socks_socket s)) = fst s
   \<or> (\<exists>sock. fst (snd (create_socks_socket s)) = (fst s)\<lparr>raw_socket := Some sock\<rparr>)"
  by (cases s) (auto simp add: create_socks_socket_def Let_def split: option.splits)

lemma create_raw_socket_self:
  "fst (snd (create_raw_socket s)) = fst s
   \<or> (\<exists>sock. fst (snd (create_raw_socket s)) = (fst s)\<lparr>raw_socket := Some sock\<rparr>)"
  using create_socks_socket_self [of s]
  by (cases s) (auto simp add: create_raw_socket_def split: option.splits)

lemma send_built_self: "fst (snd (send_built built s)) = fst s"
  by (simp add: send_built_def send_bytes_self split: sum.splits)

lemma send_client_initial_settings_frame_self:
  "fst (snd (send_client_initial_settings_frame ext s)) = fst s"
  by (simp add: send_client_initial_settings_frame_def Let_def send_built_self split: sum.splits)

lemma read_response_from_socket_self:
  "read_response_from_socket t s = Some (r, s1) \<Longrightarrow> fst s1 = fst s"
  by (cases s)
    (auto simp add: read_response_from_socket_def Let_def split: option.splits sum.splits)

lemma old_parse_frames_bytes_self: "fst (snd (old_parse_frames_bytes ext b v s)) = fst s"
  by (cases s) (simp add: old_parse_frames_bytes_def split: prod.splits)

lemma send_simple_http2_request_self:
  "fst (snd (send_simple_http2_request ext m a sc p h i body chk s)) = fst s"
  by (simp add: send_simple_http2_request_def send_built_self split: sum.splits py_body.splits)

lemma setup_connection_self:
  "fst (snd (setup_connection ext s)) = fst (snd (create_raw_socket s))
   \<or> fst (snd (setup_connection ext s))
       = (fst (snd (create_raw_socket s)))\<lparr>is_connection_closed := False\<rparr>"
proof -
  obtain r s1 where Pair: "create_raw_socket s = (r, s1)"
    by (cases "create_raw_socket s") auto
  show ?thesis
  proof (cases r)
    case (Inl e)
    with Pair show ?thesis by (simp add: setup_connection_def setup_failed_def)
  next
    case (Inr u)
    let ?s2 = "snd (send_h2_connection_preface s1)"
    have p: "fst ?s2 = fst s1"
      by (simp add: send_h2_connection_preface_def send_bytes_self)
    obtain r3 s3 where c: "send_client_initial_settings_frame ext ?s2 = (r3, s3)"
      by (cases "send_client_initial_settings_frame ext ?s2")
    then have q: "fst s3 = fst s1"
      using send_client_initial_settings_frame_self [of ext ?s2] p by simp
    from Pair Inr c q show ?thesis
      by (cases r3) (simp_all add: setup_connection_def setup_failed_def)
  qed
qed

lemma close_connection_self:
  "fst (snd (close_connection ext s)) = fst s
   \<or> fst (snd (close_connection ext s)) = (fst s)\<lparr>raw_socket := None, is_connection_closed := True\<rparr>"
proof -
  let ?b = "built_bytes ext (create_go_away_frame ext 0)"
  obtain r1 self1 w1 where e: "send_built ?b s = (r1, self1, w1)"
    by (cases "send_built ?b s") auto
  then have "self1 = fst s" using send_built_self [of ?b s] by simp
  with e show ?thesis
    by (cases r1) (simp_all add: close_connection_def Let_def split: option.splits)
qed

lemma range_step2_arith:
  "range_step2 i (i + 2 * int n) = map (\<lambda>k. i + 2 * int k) [0..<n]"
proof (induction n arbitrary: i)
  case 0
  show ?case by (subst range_step2.simps) simp
next
  case (Suc n)
  have "range_step2 i (i + 2 * int (Suc n)) = i # range_step2 (i + 2) ((i + 2) + 2 * int n)"
    by (subst range_step2.simps) (simp add: algebra_simps)
  also have "\<dots> = i # map (\<lambda>k. (i + 2) + 2 * int k) [0..<n]"
    by (simp only: Suc.IH)
  also have "\<dots> = map (\<lambda>k. i + 2 * int k) [0..<Suc n]"
    by (simp add: upt_conv_Cons map_Suc_upt[symmetric] del: upt_Suc)
  finally show ?case .
qed

lemma normalize_last_used_odd: "odd (last_used_stream_id (normalize_last_used self))"
  by (simp add: normalize_last_used_def) presburger

lemma normalize_last_used_ge:
  "last_used_stream_id self \<le> last_used_stream_id (normalize_last_used self)"
  by (simp add: normalize_last_used_def)

text \<open>What a call that an accepted count \<open>n\<close> makes returns, and how it leaves the object.\<close>

lemma generate_stream_ids_accepted:
  assumes "isinstance_int a" and "0 < int_of_arg a"
  shows "generate_stream_ids a (self, w) =
    (Inr (map (\<lambda>k. last_used_stream_id (normalize_last_used self) + 2 + 2 * int k)
            [0..<nat (int_of_arg a)]),
     (normalize_last_used self)\<lparr>last_used_stream_id :=
        last_used_stream_id (normalize_last_used self) + 2 * int_of_arg a\<rparr>,
     w)"
proof -
  let ?c = "normalize_last_used self"
  let ?n = "nat (int_of_arg a)"
  let ?ids = "map (\<lambda>k. last_used_stream_id ?c + 2 + 2 * int k) [0..<?n]"
  have n: "int ?n = int_of_arg a" "0 < ?n" using assms(2) by simp_all
  have e: "end_stream_id (int_of_arg a) ?c = start_stream_id ?c + 2 * int ?n"
    using n by (simp add: end_stream_id_def)
  have "range_step2 (start_stream_id ?c) (start_stream_id ?c + 2 * int ?n) = ?ids"
    unfolding start_stream_id_def by (rule range_step2_arith)
  then have ids: "range_step2 (start_stream_id ?c) (end_stream_id (int_of_arg a) ?c) = ?ids"
    by (simp only: e)
  have ne: "?ids \<noteq> []" using n by simp
  have "last ?ids = last_used_stream_id ?c + 2 + 2 * int (?n - 1)"
    using n(2) by (simp add: last_map last_upt del: upt.simps)
  also have "\<dots> = last_used_stream_id ?c + 2 * int_of_arg a"
    using n by (simp add: of_nat_diff algebra_simps)
  finally have l: "last ?ids = last_used_stream_id ?c + 2 * int_of_arg a" .
  have gt: "\<not> end_stream_id (int_of_arg a) ?c \<le> start_stream_id ?c"
    using assms(2) by (simp add: end_stream_id_def)
  show ?thesis
    unfolding generate_stream_ids_def
    using assms gt ne l by (simp add: Let_def ids del: upt.simps)
qed

lemma generate_stream_ids_rejected:
  assumes "\<not> isinstance_int a \<or> int_of_arg a \<le> 0"
  shows "generate_stream_ids a (self, w) =
    (Inl (ValueError positive_integer_msg), self,
     print (''The number of streams passed to the function generate_stream_ids is: '' @ str_arg a) w)"
  using assms by (auto simp add: generate_stream_ids_def)

lemma generate_stream_ids_above:
  assumes "generate_stream_ids a s = (Inr ids, s1)" and "i \<in> set ids"
  shows "last_used_stream_id (fst s) < i"
proof (cases "isinstance_int a \<and> 0 < int_of_arg a")
  case True
  obtain self w where s: "s = (self, w)" by (cases s)
  from True assms s have "i \<in> (\<lambda>k. last_used_stream_id (normalize_last_used self) + 2 + 2 * int k) ` {0..<nat (int_of_arg a)}"
    by (auto simp add: generate_stream_ids_accepted simp del: upt.simps)
  then show ?thesis using normalize_last_used_ge [of self] s by auto
next
  case False
  obtain self w where s: "s = (self, w)" by (cases s)
  from False have "\<not> isinstance_int a \<or> int_of_arg a \<le> 0" by auto
  from generate_stream_ids_rejected [OF this] assms(1) s show ?thesis by simp
qed

lemma generate_stream_ids_mono:
  "last_used_stream_id (fst s) \<le> last_used_stream_id (fst (snd (generate_stream_ids a s)))"
proof (cases "isinstance_int a \<and> 0 < int_of_arg a")
  case True
  obtain self w where s: "s = (self, w)" by (cases s)
  show ?thesis using True normalize_last_used_ge [of self]
    by (simp add: s generate_stream_ids_accepted)
next
  case False
  obtain self w where s: "s = (self, w)" by (cases s)
  from False have "\<not> isinstance_int a \<or> int_of_arg a \<le> 0" by auto
  from generate_stream_ids_rejected [OF this] s show ?thesis by simp
qed

lemma exec_last_used_mono:
  assumes "exec ext c s = Some (r, s1)"
  shows "last_used_stream_id (fst s) \<le> last_used_stream_id (fst s1)"
proof (cases c)
  case SetupConnection
  with assms have "s1 = snd (setup_connection ext s)" by (auto simp add: ended_def)
  then show ?thesis using setup_connection_self [of ext s] create_raw_socket_self [of s] by auto
next
  case CreateSocksSocket
  with assms have "s1 = snd (create_socks_socket s)" by (auto simp add: ended_def)
  then show ?thesis using create_socks_socket_self [of s] by auto
next
  case CreateRawSocket
  with assms have "s1 = snd (create_raw_socket s)" by (auto simp add: ended_def)
  then show ?thesis using create_raw_socket_self [of s] by auto
next
  case CloseConnection
  with assms have "s1 = snd (close_connection ext s)" by (auto simp add: ended_def)
  then show ?thesis using close_connection_self [of ext s] by auto
next
  case (ReadResponseFromSocket t)
  with assms show ?thesis
    by (auto simp add: ended_def split: option.splits dest: read_response_from_socket_self)
next
  case (GenerateStreamIds a)
  with assms have "s1 = snd (generate_stream_ids a s)" by (auto simp add: ended_def)
  then show ?thesis using generate_stream_ids_mono [of s a] by simp
qed (use assms in \<open>auto simp add: ended_def send_bytes_self send_built_self send_frames_def
      send_h2_connection_preface_def send_ping_frame_def Let_def
      send_client_initial_settings_frame_self old_parse_frames_bytes_self
      send_simple_http2_request_self\<close>)

lemma run_last_used_mono:
  "run ext calls s = Some s1 \<Longrightarrow> last_used_stream_id (fst s) \<le> last_used_stream_id (fst s1)"
proof (induction calls arbitrary: s)
  case Nil
  then show ?case by simp
next
  case (Cons c calls)
  then obtain r s' where e: "exec ext c s = Some (r, s')" and r: "run ext calls s' = Some s1"
    by (auto split: option.splits)
  from exec_last_used_mono [OF e] Cons.IH [OF r] show ?case by simp
qed

section \<open>Properties of the stream identifier allocator\<close>

lemma range_step2_nonempty: "i < stop \<Longrightarrow> range_step2 i stop \<noteq> []"
  by (subst range_step2.simps) simp

text \<open>
  Claim C10. Once the argument check has accepted a positive integer \<open>n\<close>, the end of
  the range is the start plus \<open>2 * n\<close> and lies above the start, so the call does not
  raise the range error (nor any other error): it returns a list.
\<close>

theorem C10_range_error_unreachable:
  assumes "isinstance_int a" and "0 < int_of_arg a"
  shows "end_stream_id (int_of_arg a) (normalize_last_used self)
           = start_stream_id (normalize_last_used self) + 2 * int_of_arg a
       \<and> start_stream_id (normalize_last_used self)
           < end_stream_id (int_of_arg a) (normalize_last_used self)
       \<and> fst (generate_stream_ids a (self, w)) \<noteq> Inl (ValueError range_problem_msg)
       \<and> (\<exists>ids. fst (generate_stream_ids a (self, w)) = Inr ids)"
proof -
  let ?c = "normalize_last_used self"
  have lt: "start_stream_id ?c < end_stream_id (int_of_arg a) ?c"
    using assms(2) by (simp add: end_stream_id_def)
  then have ne: "range_step2 (start_stream_id ?c) (end_stream_id (int_of_arg a) ?c) \<noteq> []"
    by (rule range_step2_nonempty)
  have eq: "end_stream_id (int_of_arg a) ?c = start_stream_id ?c + 2 * int_of_arg a"
    by (simp add: end_stream_id_def)
  from assms lt ne have "\<exists>ids. fst (generate_stream_ids a (self, w)) = Inr ids"
    by (simp add: generate_stream_ids_def Let_def)
  then show ?thesis using eq lt by auto
qed

theorem C10_range_error_unreachable_witness:
  "isinstance_int (PyInt 3) \<and> 0 < int_of_arg (PyInt 3)
   \<and> fst (generate_stream_ids (PyInt 3) (init ''h'' 443 (Some (Seconds 3)) None None, quiet_world))
       \<noteq> Inl (ValueError range_problem_msg)"
  using C10_range_error_unreachable
    [of "PyInt 3" "init ''h'' 443 (Some (Seconds 3)) None None" quiet_world]
  by simp

text \<open>
  Claim C3. For a positive integer \<open>n\<close>, \<^verbatim>\<open>generate_stream_ids(n)\<close> returns exactly \<open>n\<close>
  identifiers; they are strictly increasing, odd, and greater than
  \<^verbatim>\<open>last_used_stream_id\<close> as it was before the call; afterwards \<^verbatim>\<open>last_used_stream_id\<close> is
  the greatest of them. Whatever methods the caller runs next on the connection, no
  later call of \<^verbatim>\<open>generate_stream_ids\<close> returns one of them again.
\<close>

theorem C3_stream_ids_fresh_and_odd:
  assumes "0 < n"
  shows "\<exists>ids. fst (generate_stream_ids (PyInt n) (self, w)) = Inr ids
       \<and> int (length ids) = n
       \<and> sorted_wrt (<) ids
       \<and> (\<forall>i\<in>set ids. odd i \<and> last_used_stream_id self < i)
       \<and> last_used_stream_id (fst (snd (generate_stream_ids (PyInt n) (self, w)))) = Max (set ids)
       \<and> (\<forall>calls s2 b ids2.
             run ext calls (snd (generate_stream_ids (PyInt n) (self, w))) = Some s2
             \<and> fst (generate_stream_ids b s2) = Inr ids2
             \<longrightarrow> set ids \<inter> set ids2 = {})"
proof -
  let ?L = "last_used_stream_id (normalize_last_used self)"
  let ?f = "\<lambda>k. ?L + 2 + 2 * int k"
  let ?ids = "map ?f [0..<nat n]"
  let ?g = "generate_stream_ids (PyInt n) (self, w)"
  have acc: "?g = (Inr ?ids,
      (normalize_last_used self)\<lparr>last_used_stream_id := ?L + 2 * n\<rparr>, w)"
    using generate_stream_ids_accepted [of "PyInt n" self w] assms by simp
  have len: "int (length ?ids) = n" using assms by simp
  have "sorted_wrt (\<lambda>x y. ?f x < ?f y) [0..<nat n]"
    by (rule sorted_wrt_mono_rel [of _ "(<)"]) simp_all
  then have srt: "sorted_wrt (<) ?ids" by (simp only: sorted_wrt_map)
  have above: "\<forall>i\<in>set ?ids. odd i \<and> last_used_stream_id self < i"
    using normalize_last_used_odd [of self] normalize_last_used_ge [of self] by auto
  have top: "\<forall>i\<in>set ?ids. i \<le> ?L + 2 * n" by auto
  have k: "nat n - 1 \<in> {0..<nat n}" using assms by simp
  have fk: "?f (nat n - 1) = ?L + 2 * n" using assms by (simp add: of_nat_diff)
  have st: "set ?ids = ?f ` {0..<nat n}" by simp
  have "?f (nat n - 1) \<in> ?f ` {0..<nat n}" using k by (rule imageI)
  then have mem: "?L + 2 * n \<in> set ?ids" by (simp only: fk st)
  have mx: "Max (set ?ids) = ?L + 2 * n"
    using top mem by (intro Max_eqI) auto
  have fresh: "set ?ids \<inter> set ids2 = {}"
    if r: "run ext calls (snd ?g) = Some s2" and g: "fst (generate_stream_ids b s2) = Inr ids2"
    for calls s2 b ids2
  proof -
    have "?L + 2 * n \<le> last_used_stream_id (fst s2)"
      using run_last_used_mono [OF r] by (simp add: acc)
    moreover have "\<forall>i\<in>set ids2. last_used_stream_id (fst s2) < i"
      using generate_stream_ids_above [of b s2 ids2 "snd (generate_stream_ids b s2)"] g
      by (metis prod.collapse)
    ultimately show ?thesis using top by fastforce
  qed
  show ?thesis
  proof (intro exI [of _ ?ids] conjI)
    show "fst ?g = Inr ?ids" by (simp add: acc)
    show "int (length ?ids) = n" by (rule len)
    show "sorted_wrt (<) ?ids" by (rule srt)
    show "\<forall>i\<in>set ?ids. odd i \<and> last_used_stream_id self < i" by (rule above)
    have "last_used_stream_id (fst (snd ?g)) = ?L + 2 * n" by (simp add: acc)
    then show "last_used_stream_id (fst (snd ?g)) = Max (set ?ids)" by (simp only: mx)
    show "\<forall>calls s2 b ids2. run ext calls (snd ?g) = Some s2
           \<and> fst (generate_stream_ids b s2) = Inr ids2 \<longrightarrow> set ?ids \<inter> set ids2 = {}"
      using fresh by blast
  qed
qed

theorem C3_stream_ids_fresh_and_odd_witness:
  "(0::int) < 3
   \<and> fst (generate_stream_ids (PyInt 3) (init ''h'' 443 None None None, quiet_world)) = Inr [3, 5, 7]
   \<and> last_used_stream_id
        (fst (snd (generate_stream_ids (PyInt 3) (init ''h'' 443 None None None, quiet_world)))) = 7
   \<and> run example_ext [GetUsingSocket]
        (snd (generate_stream_ids (PyInt 3) (init ''h'' 443 None None None, quiet_world)))
       = Some (snd (generate_stream_ids (PyInt 3) (init ''h'' 443 None None None, quiet_world)))
   \<and> fst (generate_stream_ids (PyInt 2)
        (snd (generate_stream_ids (PyInt 3) (init ''h'' 443 None None None, quiet_world))))
       = Inr [9, 11]
   \<and> set [3, 5, 7] \<inter> set [9, 11] = ({} :: int set)"
proof -
  let ?s0 = "(init ''h'' 443 None None None, quiet_world)"
  let ?g = "generate_stream_ids (PyInt 3) ?s0"
  have l0: "last_used_stream_id (normalize_last_used (init ''h'' 443 None None None)) = 1"
    by (simp add: normalize_last_used_def init_def)
  have g: "fst ?g = Inr [3, 5, 7]" "last_used_stream_id (fst (snd ?g)) = 7"
    by (simp_all add: generate_stream_ids_accepted l0 upt_rec)
  have r: "run example_ext [GetUsingSocket] (snd ?g) = Some (snd ?g)"
    by simp
  have l1: "last_used_stream_id (normalize_last_used (fst (snd ?g))) = 7"
    using g(2) by (simp add: normalize_last_used_def)
  have "generate_stream_ids (PyInt 2) (fst (snd ?g), snd (snd ?g)) =
      (Inr (map (\<lambda>k. 7 + 2 + 2 * int k) [0..<nat 2]),
       (normalize_last_used (fst (snd ?g)))\<lparr>last_used_stream_id := 7 + 2 * 2\<rparr>, snd (snd ?g))"
    using generate_stream_ids_accepted [of "PyInt 2" "fst (snd ?g)" "snd (snd ?g)"] l1 by simp
  then have g2: "fst (generate_stream_ids (PyInt 2) (snd ?g)) = Inr [9, 11]"
    by (simp add: upt_rec)
  from C3_stream_ids_fresh_and_odd [of 3 "init ''h'' 443 None None None" quiet_world example_ext]
  obtain ids where "fst ?g = Inr ids"
    and "\<forall>calls s2 b ids2. run example_ext calls (snd ?g) = Some s2
           \<and> fst (generate_stream_ids b s2) = Inr ids2 \<longrightarrow> set ids \<inter> set ids2 = {}"
    by auto
  with g(1) r g2 have "set [3, 5, 7] \<inter> set [9, 11] = ({} :: int set)"
    by (metis sum.inject(2))
  with g r g2 show ?thesis by simp
qed

text \<open>
  Claim C8. A count that is not an instance of \<^verbatim>\<open>int\<close>, or is zero or negative (so 0
  and -1), makes \<^verbatim>\<open>generate_stream_ids\<close> raise the \<^verbatim>\<open>ValueError\<close> of its argument check at
  once: the object, and \<^verbatim>\<open>last_used_stream_id\<close> with it, is unchanged, nothing is sent
  or read, and the only effect on the world is the line printed before the raise.
\<close>

theorem C8_bad_count_rejected:
  assumes "\<not> isinstance_int a \<or> int_of_arg a \<le> 0"
  shows "fst (generate_stream_ids a (self, w)) = Inl (ValueError positive_integer_msg)
       \<and> fst (snd (generate_stream_ids a (self, w))) = self
       \<and> last_used_stream_id (fst (snd (generate_stream_ids a (self, w)))) = last_used_stream_id self
       \<and> snd (snd (generate_stream_ids a (self, w)))
           = w\<lparr>stdout := stdout w
                @ [''The number of streams passed to the function generate_stream_ids is: ''
                     @ str_arg a]\<rparr>
       \<and> n_send (snd (snd (generate_stream_ids a (self, w)))) = n_send w
       \<and> n_recv (snd (snd (generate_stream_ids a (self, w)))) = n_recv w
       \<and> wire (snd (snd (generate_stream_ids a (self, w)))) = wire w"
  by (simp add: generate_stream_ids_rejected [OF assms] print_def)

theorem C8_bad_count_rejected_witness:
  "int_of_arg (PyInt 0) \<le> 0 \<and> int_of_arg (PyInt (- 1)) \<le> 0 \<and> isinstance_int (PyOther ''1.5'') = False
   \<and> fst (generate_stream_ids (PyInt 0) (init ''h'' 443 None None None, quiet_world))
        = Inl (ValueError positive_integer_msg)
   \<and> fst (generate_stream_ids (PyInt (- 1)) (init ''h'' 443 None None None, quiet_world))
        = Inl (ValueError positive_integer_msg)
   \<and> fst (generate_stream_ids (PyOther ''1.5'') (init ''h'' 443 None None None, quiet_world))
        = Inl (ValueError positive_integer_msg)
   \<and> last_used_stream_id
        (fst (snd (generate_stream_ids (PyInt 0) (init ''h'' 443 None None None, quiet_world)))) = 1"
  using C8_bad_count_rejected [of "PyInt 0" "init ''h'' 443 None None None" quiet_world]
    C8_bad_count_rejected [of "PyInt (- 1)" "init ''h'' 443 None None None" quiet_world]
    C8_bad_count_rejected [of "PyOther ''1.5''" "init ''h'' 443 None None None" quiet_world]
  by (simp add: init_def)

section \<open>Properties of the initial SETTINGS frame\<close>

lemma settings_loop_present:
  assumes "\<forall>(k, entry) \<in> set entries. map_of table k = Some entry"
  shows "settings_loop table (map fst entries) acc = Inr (acc @ transmitted_entries entries)"
  using assms
proof (induction entries arbitrary: acc)
  case Nil
  then show ?case by (simp add: transmitted_entries_def)
next
  case (Cons x entries)
  obtain k entry where x: "x = (k, entry)" by (cases x)
  from Cons.prems x have look: "map_of table k = Some entry" by simp
  from Cons.prems have rest: "\<forall>(k, entry) \<in> set entries. map_of table k = Some entry" by simp
  show ?case
  proof (cases "entry_value entry")
    case None
    with look x Cons.IH [OF rest, of acc] show ?thesis
      by (simp add: transmitted_entries_def)
  next
    case (Some v)
    with look x Cons.IH [OF rest, of "acc @ [H2Setting (entry_id entry) v]"] show ?thesis
      by (simp add: transmitted_entries_def)
  qed
qed

lemma settings_loop_table:
  assumes "distinct (map fst table)"
  shows "settings_loop table (map fst table) [] = Inr (transmitted_entries table)"
proof -
  from assms have "\<forall>(k, entry) \<in> set table. map_of table k = Some entry" by auto
  from settings_loop_present [OF this, of "[]"] show ?thesis by simp
qed

lemma default_settings_distinct: "distinct (map fst default_settings_table)"
  by (simp add: default_settings_table_def)

lemma transmitted_default_settings:
  "transmitted_entries default_settings_table =
    [H2Setting 1 4096, H2Setting 2 0, H2Setting 3 100, H2Setting 4 65535, H2Setting 5 16384]"
  by (simp add: transmitted_entries_def default_settings_table_def)

text \<open>
  Claim C6. With the default table, the SETTINGS frame the method has built, and whose
  bytes it hands to \<^verbatim>\<open>send_bytes\<close>, is made from header table size 4096, push 0, max
  concurrent streams 100, initial window size 65535 and max frame size 16384, in this
  order, and max header list size (which has no value) is left out. For every table
  whose keys are distinct, as those of a dictionary are, the loop yields exactly the
  entries that have a value, in the order of the table.
\<close>

theorem C6_initial_settings_frame:
  assumes "DEFAULT_SETTINGS self = default_settings_table"
  shows "send_client_initial_settings_frame ext (self, w) =
           (case create_settings_frame ext
                   [H2Setting 1 4096, H2Setting 2 0, H2Setting 3 100, H2Setting 4 65535,
                    H2Setting 5 16384] of
              Inl e \<Rightarrow> (Inl e, self, w)
            | Inr client_initial_settings_frame \<Rightarrow>
                (case frame_bytes ext client_initial_settings_frame of
                   Inl e \<Rightarrow> (Inl e, self, w)
                 | Inr b \<Rightarrow> (Inr (), snd (send_bytes b (self, w)))))
       \<and> (distinct (map fst table)
            \<longrightarrow> settings_loop table (map fst table) [] = Inr (transmitted_entries table))"
proof -
  have "settings_loop default_settings_table (map fst default_settings_table) [] =
      Inr [H2Setting 1 4096, H2Setting 2 0, H2Setting 3 100, H2Setting 4 65535, H2Setting 5 16384]"
    using settings_loop_table [OF default_settings_distinct]
    by (simp only: transmitted_default_settings)
  then show ?thesis
    using assms
    by (simp add: send_client_initial_settings_frame_def settings_loop_table send_built_def
        built_bytes_def split: sum.splits)
qed

theorem C6_initial_settings_frame_witness:
  "DEFAULT_SETTINGS (init ''h'' 443 None None None) = default_settings_table
   \<and> distinct (map fst default_settings_table)
   \<and> create_settings_frame example_ext
        [H2Setting 1 4096, H2Setting 2 0, H2Setting 3 100, H2Setting 4 65535, H2Setting 5 16384]
       = Inr \<lparr>stream_id = 0, flags = {},
              payload = H2SettingsFrame [H2Setting 1 4096, H2Setting 2 0, H2Setting 3 100,
                          H2Setting 4 65535, H2Setting 5 16384]\<rparr>
   \<and> send_client_initial_settings_frame example_ext (init ''h'' 443 None None None, quiet_world) =
       (Inr (), snd (send_bytes [4, 1, 2, 3, 4, 5] (init ''h'' 443 None None None, quiet_world)))
   \<and> settings_loop default_settings_table (map fst default_settings_table) []
       = Inr (transmitted_entries default_settings_table)"
  using C6_initial_settings_frame
    [of "init ''h'' 443 None None None" example_ext quiet_world default_settings_table]
    default_settings_distinct
  by (simp add: init_def example_ext_def example_frame_bytes_def)

section \<open>Properties of the request splitter\<close>

lemma bytes_utf8_nonempty:
  assumes "bytes_utf8 body = Inr b" and "body \<noteq> []"
  shows "b \<noteq> []"
proof (cases body)
  case Nil
  with assms show ?thesis by simp
next
  case (Cons c cs)
  with assms(1) obtain b1 bs where "utf8_code_point c = Inr b1" and "b = b1 @ bs"
    by (auto split: sum.splits)
  moreover from this(1) have "b1 \<noteq> []"
    by (auto simp add: utf8_code_point_def split: if_splits)
  ultimately show ?thesis by simp
qed

lemma group_payload_snoc:
  "group_payload (frames @ [fr]) = group_payload frames @ frame_payload_bytes fr"
  by (simp add: group_payload_def)

lemma split_with_body_result:
  assumes "frames \<noteq> []" and "payload (last frames) = H2DataFrame d" and "end_of_stream (last frames)"
  shows "split_with_body sid frames =
    Inr (butlast frames
           @ [(last frames)\<lparr>flags := flags (last frames) - {''ES''},
                            payload := H2DataFrame (butlast d)\<rparr>],
         \<lparr>stream_id = sid, flags = {''ES''}, payload = H2DataFrame (slice_last d)\<rparr>)"
  using assms
  by (simp add: split_with_body_def last_frame_def frame_data_def flags_remove_def
      slice_but_last_def end_of_stream_def Let_def)

lemma split_without_body_result:
  assumes "frames \<noteq> []" and "end_of_stream (last frames)"
  shows "split_without_body sid frames =
    Inr (butlast frames @ [(last frames)\<lparr>flags := flags (last frames) - {''ES''}\<rparr>],
         \<lparr>stream_id = sid, flags = {''ES''}, payload = H2DataFrame []\<rparr>)"
  using assms
  by (simp add: split_without_body_def last_frame_def flags_remove_def end_of_stream_def)

text \<open>
  Claim C1. For a body of at least one character, whose UTF-8 bytes are \<open>b\<close>, and frames
  of the codec that meet \<open>codec_frames_for\<close>: the method returns a bulk group and a
  trigger frame; the payload bytes of the bulk group followed by the one byte of the
  trigger frame are \<open>b\<close>; the trigger frame carries the end-of-stream marker and no
  frame of the bulk group does.
\<close>

theorem C1_split_reproduces_body:
  assumes "body \<noteq> []" and "bytes_utf8 body = Inr b"
    and "create_headers_frame ext meth authority scheme path
           (lowercase_if ext chk headers_string) sid (BodyBytes b) = Inr frames"
    and "codec_frames_for (BodyBytes b) frames"
  shows "\<exists>bulk trigger.
      create_single_packet_http2_request_frames ext authority scheme path headers_string sid
          (Some body) chk meth = Inr (bulk, trigger)
      \<and> group_payload bulk @ frame_payload_bytes trigger = b
      \<and> length (frame_payload_bytes trigger) = 1
      \<and> 1 \<le> length b
      \<and> end_of_stream trigger
      \<and> list_all (\<lambda>fr. \<not> end_of_stream fr) bulk
      \<and> stream_id trigger = sid"
proof -
  from assms(4) obtain d where ne: "frames \<noteq> []" and es: "end_of_stream (last frames)"
    and others: "list_all (\<lambda>fr. \<not> end_of_stream fr) (butlast frames)"
    and whole: "group_payload frames = b"
    and lastd: "payload (last frames) = H2DataFrame d" and d: "d \<noteq> []"
    by (auto simp add: codec_frames_for_def split: h2_payload.splits)
  let ?fr = "(last frames)\<lparr>flags := flags (last frames) - {''ES''}, payload := H2DataFrame (butlast d)\<rparr>"
  let ?bulk = "butlast frames @ [?fr]"
  let ?trigger = "\<lparr>stream_id = sid, flags = {''ES''}, payload = H2DataFrame (slice_last d)\<rparr>"
  have res: "create_single_packet_http2_request_frames ext authority scheme path headers_string sid
          (Some body) chk meth = Inr (?bulk, ?trigger)"
    using assms(1,2,3) split_with_body_result [OF ne lastd es, of sid]
    by (simp add: create_single_packet_http2_request_frames_def encode_body_def)
  have "group_payload frames = group_payload (butlast frames) @ d"
    using group_payload_snoc [of "butlast frames" "last frames"] ne lastd
    by (simp add: frame_payload_bytes_def)
  then have pay: "group_payload ?bulk @ frame_payload_bytes ?trigger = b"
    using whole d
    by (simp add: group_payload_snoc frame_payload_bytes_def slice_last_def)
  have one: "length (frame_payload_bytes ?trigger) = 1"
    using d by (simp add: frame_payload_bytes_def slice_last_def)
  have len: "1 \<le> length b"
    using bytes_utf8_nonempty [OF assms(2,1)] by (cases b) simp_all
  have noes: "list_all (\<lambda>fr. \<not> end_of_stream fr) ?bulk"
    using others by (simp add: end_of_stream_def)
  show ?thesis
    using res pay one len noes by (intro exI [of _ ?bulk] exI [of _ ?trigger]) (simp add: end_of_stream_def)
qed

theorem C1_split_reproduces_body_witness:
  "[0x61, 0x62, 0xE9] \<noteq> ([] :: pystr)
   \<and> bytes_utf8 [0x61, 0x62, 0xE9] = Inr [0x61, 0x62, 0xC3, 0xA9]
   \<and> codec_frames_for (BodyBytes [0x61, 0x62, 0xC3, 0xA9])
        [\<lparr>stream_id = 3, flags = {''EH''}, payload = H2HeadersFrame ''''\<rparr>,
         \<lparr>stream_id = 3, flags = {''ES''}, payload = H2DataFrame [0x61, 0x62, 0xC3, 0xA9]\<rparr>]
   \<and> (\<exists>bulk trigger.
        create_single_packet_http2_request_frames example_ext ''example.com'' ''https'' ''/'' '''' 3
          (Some [0x61, 0x62, 0xE9]) True ''POST'' = Inr (bulk, trigger)
        \<and> group_payload bulk @ frame_payload_bytes trigger = [0x61, 0x62, 0xC3, 0xA9]
        \<and> end_of_stream trigger)"
proof -
  have b: "bytes_utf8 [0x61, 0x62, 0xE9] = Inr [0x61, 0x62, 0xC3, 0xA9]"
    by (simp add: utf8_code_point_def)
  have c: "codec_frames_for (BodyBytes [0x61, 0x62, 0xC3, 0xA9])
        [\<lparr>stream_id = 3, flags = {''EH''}, payload = H2HeadersFrame ''''\<rparr>,
         \<lparr>stream_id = 3, flags = {''ES''}, payload = H2DataFrame [0x61, 0x62, 0xC3, 0xA9]\<rparr>]"
    by (simp add: codec_frames_for_def end_of_stream_def group_payload_def frame_payload_bytes_def)
  have f: "create_headers_frame example_ext ''POST'' ''example.com'' ''https'' ''/''
      (lowercase_if example_ext True '''') 3 (BodyBytes [0x61, 0x62, 0xC3, 0xA9]) =
      Inr [\<lparr>stream_id = 3, flags = {''EH''}, payload = H2HeadersFrame ''''\<rparr>,
         \<lparr>stream_id = 3, flags = {''ES''}, payload = H2DataFrame [0x61, 0x62, 0xC3, 0xA9]\<rparr>]"
    by (simp add: example_ext_def example_headers_frame_def lowercase_if_def)
  from C1_split_reproduces_body [OF _ b f c] b c show ?thesis by blast
qed

text \<open>
  Without a body, when the last frame of the codec carries the end-of-stream marker
  and no other frame does: the method returns the frames with the marker taken off the
  last one, and a trigger frame that is none of them, is on the same stream, carries
  no payload byte and carries the marker.
\<close>

lemma bodyless_split_when_last_frame_ends_stream:
  assumes "create_headers_frame ext meth authority scheme path
             (lowercase_if ext chk headers_string) sid BodyNone = Inr frames"
    and "codec_frames_for BodyNone frames"
  shows "\<exists>bulk trigger.
      create_single_packet_http2_request_frames ext authority scheme path headers_string sid
          None chk meth = Inr (bulk, trigger)
      \<and> bulk = butlast frames @ [(last frames)\<lparr>flags := flags (last frames) - {''ES''}\<rparr>]
      \<and> stream_id trigger = sid
      \<and> payload trigger = H2DataFrame []
      \<and> length (frame_payload_bytes trigger) = 0
      \<and> end_of_stream trigger
      \<and> \<not> end_of_stream (last bulk)
      \<and> list_all (\<lambda>fr. \<not> end_of_stream fr) bulk
      \<and> trigger \<notin> set bulk"
proof -
  from assms(2) have ne: "frames \<noteq> []" and es: "end_of_stream (last frames)"
    and others: "list_all (\<lambda>fr. \<not> end_of_stream fr) (butlast frames)"
    by (simp_all add: codec_frames_for_def)
  let ?bulk = "butlast frames @ [(last frames)\<lparr>flags := flags (last frames) - {''ES''}\<rparr>]"
  let ?trigger = "\<lparr>stream_id = sid, flags = {''ES''}, payload = H2DataFrame []\<rparr>"
  have res: "create_single_packet_http2_request_frames ext authority scheme path headers_string sid
          None chk meth = Inr (?bulk, ?trigger)"
    using assms(1) split_without_body_result [OF ne es, of sid]
    by (simp add: create_single_packet_http2_request_frames_def encode_body_def)
  have noes: "list_all (\<lambda>fr. \<not> end_of_stream fr) ?bulk"
    using others by (simp add: end_of_stream_def)
  have tr: "end_of_stream ?trigger" by (simp add: end_of_stream_def)
  have "?trigger \<notin> set ?bulk"
    using noes tr unfolding list_all_iff by blast
  then show ?thesis
    using res noes tr
    by (intro exI [of _ ?bulk] exI [of _ ?trigger]) (simp add: end_of_stream_def frame_payload_bytes_def)
qed

text \<open>
  Without a body, when the last frame of the codec does not carry the end-of-stream
  marker, \<^verbatim>\<open>request_frames.frames[-1].flags.remove('ES')\<close> raises, and the method returns
  neither group.
\<close>

lemma bodyless_split_raises_when_last_frame_has_no_marker:
  assumes "create_headers_frame ext meth authority scheme path
             (lowercase_if ext chk headers_string) sid BodyNone = Inr frames"
    and "frames \<noteq> []" and "\<not> end_of_stream (last frames)"
  shows "create_single_packet_http2_request_frames ext authority scheme path headers_string sid
          None chk meth = Inl (KeyError (quoted ''ES''))"
  using assms
  by (simp add: create_single_packet_http2_request_frames_def encode_body_def
      split_without_body_def last_frame_def flags_remove_def end_of_stream_def)

text \<open>
  Claim C2 fails on the code for a request without body whose header block does not
  fit one frame. The codec then returns a HEADERS frame, which carries the
  end-of-stream marker, followed by a CONTINUATION frame; the method looks for the
  marker on the last frame and raises \<^verbatim>\<open>KeyError\<close>: there is no trigger frame, and the
  marker is not removed. (Here the frame size is 8 and the header block 17 characters.)
\<close>

theorem C2_bodyless_split_raises_after_continuation:
  "create_headers_frame (continued_ext 8) ''GET'' ''example.com'' ''https'' ''/''
      (lowercase_if (continued_ext 8) True ''cookie: a=bcdefgh'') 3 BodyNone
     = Inr [\<lparr>stream_id = 3, flags = {''ES''}, payload = H2HeadersFrame ''cookie: ''\<rparr>,
            \<lparr>stream_id = 3, flags = {''EH''}, payload = H2ContinuationFrame ''a=bcdefgh''\<rparr>]
   \<and> create_single_packet_http2_request_frames (continued_ext 8) ''example.com'' ''https'' ''/''
        ''cookie: a=bcdefgh'' 3 None True ''GET''
     = Inl (KeyError (quoted ''ES''))"
proof -
  have f: "create_headers_frame (continued_ext 8) ''GET'' ''example.com'' ''https'' ''/''
      (lowercase_if (continued_ext 8) True ''cookie: a=bcdefgh'') 3 BodyNone
     = Inr [\<lparr>stream_id = 3, flags = {''ES''}, payload = H2HeadersFrame ''cookie: ''\<rparr>,
            \<lparr>stream_id = 3, flags = {''EH''}, payload = H2ContinuationFrame ''a=bcdefgh''\<rparr>]"
    by (simp add: continued_ext_def example_ext_def continued_headers_frame_def lowercase_if_def)
  from bodyless_split_raises_when_last_frame_has_no_marker [OF f] f show ?thesis
    by (simp add: end_of_stream_def)
qed

section \<open>Properties of reading\<close>

lemma recv_loop_inbound:
  assumes "inbound (mode w) (recv_outcome w) (n_recv w) chunks"
  shows "recv_loop acc w =
    Some (Inr (acc @ concat chunks), w\<lparr>n_recv := n_recv w + length chunks + 1\<rparr>)"
  using assms
proof (induction chunks arbitrary: acc w)
  case Nil
  then show ?case by (subst recv_loop.simps) (auto simp add: recv_def)
next
  case (Cons c cs)
  let ?w1 = "w\<lparr>n_recv := Suc (n_recv w)\<rparr>"
  from Cons.prems have c: "recv_outcome w (n_recv w) = RecvData c" "c \<noteq> []"
    and rest: "inbound (mode ?w1) (recv_outcome ?w1) (n_recv ?w1) cs"
    by simp_all
  have "recv_loop acc w = recv_loop (acc @ c) ?w1"
    using c by (subst recv_loop.simps) (simp add: recv_def)
  also have "\<dots> = Some (Inr ((acc @ c) @ concat cs), ?w1\<lparr>n_recv := n_recv ?w1 + length cs + 1\<rparr>)"
    by (rule Cons.IH [OF rest])
  finally show ?case by simp
qed

lemma settimeout_keeps:
  assumes "settimeout t w = Inr w0"
  shows "recv_outcome w0 = recv_outcome w" and "n_recv w0 = n_recv w"
  using assms by (auto simp add: settimeout_def split: option.splits py_number.splits if_splits)

lemma read_on_silent_non_blocking_socket:
  assumes "raw_socket self = Some sock" and "effective_timeout t self = Some (Seconds 0)"
    and "timeout_fits w 0" and "recv_outcome w (n_recv w) = RecvNothing"
  shows "read_response_from_socket t (self, w) =
    Some (Inl (BlockingIOError ''Resource temporarily unavailable''), self,
          w\<lparr>mode := NonBlocking, n_recv := Suc (n_recv w)\<rparr>)"
proof -
  let ?w0 = "w\<lparr>mode := NonBlocking\<rparr>"
  have "recv_loop [] ?w0 =
      Some (Inl (BlockingIOError ''Resource temporarily unavailable''), ?w0\<lparr>n_recv := Suc (n_recv ?w0)\<rparr>)"
    using assms(4) by (subst recv_loop.simps) (simp add: recv_def)
  then show ?thesis
    using assms(1,2,3)
    by (simp add: read_response_from_socket_def get_using_socket_def effective_timeout_def
        settimeout_def Let_def)
qed

text \<open>
  Claim C7, as the code has it. For every timeout: when there is no socket, or
  \<^verbatim>\<open>settimeout\<close> refuses the timeout, the method returns the empty buffer at once, without
  reading. When \<^verbatim>\<open>settimeout\<close> accepts it, and the data \<open>chunks\<close> arrive and then the
  peer closes or, on a socket with a timeout, the read times out, the method returns,
  and returns a buffer, not an exception: all the chunks, one after the other (nothing,
  when there were none). Every positive timeout that the platform can hold gives the
  socket a timeout.
\<close>

theorem C7_read_returns_buffer_on_timeout:
  "(raw_socket self = None \<or> (\<exists>e. settimeout (effective_timeout t self) w = Inl e)
      \<longrightarrow> read_response_from_socket t (self, w) = Some (Inr [], self, w))
   \<and> (\<forall>w0. raw_socket self \<noteq> None \<and> settimeout (effective_timeout t self) w = Inr w0
              \<and> inbound (mode w0) (recv_outcome w) (n_recv w) chunks
      \<longrightarrow> read_response_from_socket t (self, w) =
            Some (Inr (concat chunks), self, w0\<lparr>n_recv := n_recv w + length chunks + 1\<rparr>))
   \<and> (\<forall>x. effective_timeout t self = Some (Seconds x) \<and> 0 < x \<and> timeout_fits w x
      \<longrightarrow> settimeout (effective_timeout t self) w = Inr (w\<lparr>mode := TimeoutMode\<rparr>))"
proof (intro conjI allI impI)
  assume "raw_socket self = None \<or> (\<exists>e. settimeout (effective_timeout t self) w = Inl e)"
  then show "read_response_from_socket t (self, w) = Some (Inr [], self, w)"
    by (auto simp add: read_response_from_socket_def get_using_socket_def effective_timeout_def
        Let_def split: option.splits)
next
  fix w0
  assume a: "raw_socket self \<noteq> None \<and> settimeout (effective_timeout t self) w = Inr w0
              \<and> inbound (mode w0) (recv_outcome w) (n_recv w) chunks"
  then have k: "recv_outcome w0 = recv_outcome w" "n_recv w0 = n_recv w"
    using settimeout_keeps [of "effective_timeout t self" w w0] by simp_all
  with a have "inbound (mode w0) (recv_outcome w0) (n_recv w0) chunks" by simp
  from recv_loop_inbound [OF this, of "[]"] a k
  show "read_response_from_socket t (self, w) =
            Some (Inr (concat chunks), self, w0\<lparr>n_recv := n_recv w + length chunks + 1\<rparr>)"
    by (auto simp add: read_response_from_socket_def get_using_socket_def effective_timeout_def
        Let_def split: option.splits)
next
  fix x
  assume "effective_timeout t self = Some (Seconds x) \<and> 0 < x \<and> timeout_fits w x"
  then show "settimeout (effective_timeout t self) w = Inr (w\<lparr>mode := TimeoutMode\<rparr>)"
    by (simp add: settimeout_def)
qed

theorem C7_read_returns_buffer_on_timeout_witness:
  "settimeout (effective_timeout (Some (Seconds 0.5)) connected_example) quiet_world
      = Inr (quiet_world\<lparr>mode := TimeoutMode\<rparr>)
   \<and> inbound TimeoutMode (recv_outcome quiet_world) (n_recv quiet_world) []
   \<and> read_response_from_socket (Some (Seconds 0.5)) (connected_example, quiet_world)
       = Some (Inr [], connected_example, quiet_world\<lparr>mode := TimeoutMode, n_recv := 1\<rparr>)
   \<and> inbound Blocking (\<lambda>k. if k < 2 then RecvData [1, 2] else RecvData []) 0 [[1, 2], [1, 2]]
   \<and> read_response_from_socket None
        (connected_example,
         quiet_world\<lparr>recv_outcome := (\<lambda>k. if k < 2 then RecvData [1, 2] else RecvData [])\<rparr>)
       = Some (Inr [1, 2, 1, 2], connected_example,
           quiet_world\<lparr>recv_outcome := (\<lambda>k. if k < 2 then RecvData [1, 2] else RecvData []),
                        n_recv := 3\<rparr>)
   \<and> settimeout (effective_timeout (Some (Seconds (- 1))) connected_example) quiet_world
      = Inl (ValueError ''Timeout value out of range'')
   \<and> read_response_from_socket (Some (Seconds (- 1))) (connected_example, quiet_world)
       = Some (Inr [], connected_example, quiet_world)"
proof -
  let ?w = "quiet_world\<lparr>recv_outcome := (\<lambda>k. if k < 2 then RecvData [1, 2] else RecvData [])\<rparr>"
  have s: "raw_socket connected_example \<noteq> None" "read_timeout connected_example = None"
    by (simp_all add: connected_example_def init_def)
  have q: "n_recv quiet_world = 0" "mode quiet_world = Blocking" "timeout_fits quiet_world 0.5"
    "recv_outcome quiet_world = (\<lambda>k. RecvNothing)"
    by (simp_all add: quiet_world_def)
  have t1: "settimeout (effective_timeout (Some (Seconds 0.5)) connected_example) quiet_world
      = Inr (quiet_world\<lparr>mode := TimeoutMode\<rparr>)"
    using q by (simp add: settimeout_def effective_timeout_def)
  have a: "inbound (mode (quiet_world\<lparr>mode := TimeoutMode\<rparr>)) (recv_outcome quiet_world)
      (n_recv quiet_world) []"
    using q by simp
  have t2: "settimeout (effective_timeout None connected_example) ?w = Inr (?w\<lparr>mode := Blocking\<rparr>)"
    using s by (simp add: settimeout_def effective_timeout_def)
  have b: "inbound (mode (?w\<lparr>mode := Blocking\<rparr>)) (recv_outcome ?w) (n_recv ?w) [[1, 2], [1, 2]]"
    using q by simp
  have m: "?w\<lparr>mode := Blocking\<rparr> = ?w" using q by simp
  have t3: "settimeout (effective_timeout (Some (Seconds (- 1))) connected_example) quiet_world
      = Inl (ValueError ''Timeout value out of range'')"
    by (simp add: settimeout_def effective_timeout_def)
  show ?thesis
    using C7_read_returns_buffer_on_timeout
        [of connected_example "Some (Seconds 0.5)" quiet_world "[]"]
      C7_read_returns_buffer_on_timeout [of connected_example None ?w "[[1, 2], [1, 2]]"]
      C7_read_returns_buffer_on_timeout [of connected_example "Some (Seconds (- 1))" quiet_world "[]"]
      s q t1 a t2 b m t3
    by simp
qed

theorem C7_read_raises_or_skips_counterexample:
  "read_response_from_socket (Some (Seconds 0)) (connected_example, quiet_world)
     = Some (Inl (BlockingIOError ''Resource temporarily unavailable''), connected_example,
             quiet_world\<lparr>mode := NonBlocking, n_recv := 1\<rparr>)
   \<and> recv_outcome (quiet_world\<lparr>recv_outcome := (\<lambda>k. if k < 2 then RecvData [1, 2] else RecvData [])\<rparr>) 0
       = RecvData [1, 2]
   \<and> read_response_from_socket (Some (Seconds 10000000000))
        (connected_example,
         quiet_world\<lparr>recv_outcome := (\<lambda>k. if k < 2 then RecvData [1, 2] else RecvData [])\<rparr>)
     = Some (Inr [], connected_example,
             quiet_world\<lparr>recv_outcome := (\<lambda>k. if k < 2 then RecvData [1, 2] else RecvData [])\<rparr>)"
proof -
  have s: "raw_socket connected_example = Some (SocketObj (''h'', 443))"
    by (simp add: connected_example_def)
  have q: "timeout_fits quiet_world 0" "recv_outcome quiet_world (n_recv quiet_world) = RecvNothing"
    "n_recv quiet_world = 0" "\<not> timeout_fits quiet_world 10000000000"
    by (simp_all add: quiet_world_def)
  have e: "effective_timeout (Some (Seconds 0)) connected_example = Some (Seconds 0)"
    by (simp add: effective_timeout_def)
  from read_on_silent_non_blocking_socket [OF s e q(1,2)] s q(3,4) show ?thesis
    by (simp add: read_response_from_socket_def get_using_socket_def settimeout_def)
qed

section \<open>Properties of the handshake and of teardown\<close>

lemma send_bytes_no_socket:
  assumes "raw_socket self = None"
  shows "send_bytes b (self, w) =
    (None, self, print (''# Error in sending bytes: '' @ exn_str (none_has_no ''send'')) w)"
  using assms by (simp add: send_bytes_def get_using_socket_def)

lemma send_bytes_socket:
  assumes "raw_socket self = Some sock"
  shows "send_bytes b (self, w) =
    (case send_outcome w (n_send w) of
       None \<Rightarrow> (Some (), self, w\<lparr>n_send := Suc (n_send w), wire := wire w @ [b]\<rparr>)
     | Some m \<Rightarrow>
         (None, self,
          print (''# Error in sending bytes: '' @ exn_str (OSError m)) (w\<lparr>n_send := Suc (n_send w)\<rparr>)))"
  using assms by (simp add: send_bytes_def get_using_socket_def)

lemma close_connection_connected:
  assumes "raw_socket self = Some sock"
    and "built_bytes ext (create_go_away_frame ext 0) = Inr b"
  shows "close_connection ext (self, w) =
    (Inr (), self\<lparr>raw_socket := None, is_connection_closed := True\<rparr>,
     snd (snd (send_bytes b (self, w))))"
  using assms
  by (simp add: close_connection_def send_built_def send_bytes_socket [OF assms(1)] Let_def
      split: option.splits)

lemma close_connection_released:
  assumes "raw_socket self = None"
    and "built_bytes ext (create_go_away_frame ext 0) = Inr b"
  shows "close_connection ext (self, w) =
    (Inl (none_has_no ''close''), self,
     print (''# Error in sending bytes: '' @ exn_str (none_has_no ''send'')) w)"
  using assms
  by (simp add: close_connection_def send_built_def send_bytes_no_socket [OF assms(1)])

lemma close_connection_unbuilt:
  assumes "built_bytes ext (create_go_away_frame ext 0) = Inl e"
  shows "close_connection ext s = (Inl e, s)"
  using assms by (simp add: close_connection_def send_built_def)

lemma create_raw_socket_cases:
  "create_raw_socket (self, w) =
    (case connect_error self w of
       Some m \<Rightarrow> (Inl (OSError m), self, world_after_connect self w)
     | None \<Rightarrow>
         (Inr (), self\<lparr>raw_socket := Some (SocketObj (hostname self, port_number self))\<rparr>,
          (world_after_connect self w)\<lparr>mode := Blocking\<rparr>))"
  by (simp add: create_raw_socket_def create_socks_socket_def connect_error_def
      world_after_connect_def Let_def split: option.splits)

lemma settings_loop_total:
  assumes "set keys \<subseteq> fst ` set table"
  shows "\<exists>l. settings_loop table keys acc = Inr l"
  using assms
proof (induction keys arbitrary: acc)
  case Nil
  then show ?case by simp
next
  case (Cons k keys)
  then have "k \<in> fst ` set table" by simp
  then obtain entry where "map_of table k = Some entry"
    by (metis domD dom_map_of_conv_image_fst)
  with Cons show ?case by (cases "entry_value entry") auto
qed

text \<open>
  When the codec builds and serialises every SETTINGS frame, the third step of the
  handshake does not raise.
\<close>

lemma send_client_initial_settings_frame_ok:
  assumes "\<And>l. \<exists>b. built_bytes ext (create_settings_frame ext l) = Inr b"
  shows "fst (send_client_initial_settings_frame ext s) = Inr ()"
proof -
  obtain l where l: "settings_loop (DEFAULT_SETTINGS (fst s)) (map fst (DEFAULT_SETTINGS (fst s))) [] = Inr l"
    using settings_loop_total [of "map fst (DEFAULT_SETTINGS (fst s))" "DEFAULT_SETTINGS (fst s)" "[]"]
    by auto
  from assms [of l] obtain b where "built_bytes ext (create_settings_frame ext l) = Inr b" ..
  with l show ?thesis by (simp add: send_client_initial_settings_frame_def send_built_def Let_def)
qed

lemma setup_connection_refused:
  assumes "connect_error self w = Some m"
  shows "setup_connection ext (self, w) =
    (Inl (SystemExit 1), self,
     print (''# Error in setting the connection up : '' @ m) (world_after_connect self w))"
  using assms by (simp add: setup_connection_def create_raw_socket_cases setup_failed_def)

lemma setup_connection_opened:
  assumes "connect_error self w = None"
    and "\<And>l. \<exists>b. built_bytes ext (create_settings_frame ext l) = Inr b"
  shows "fst (setup_connection ext (self, w)) = Inr ()"
    and "fst (snd (setup_connection ext (self, w))) =
      self\<lparr>raw_socket := Some (SocketObj (hostname self, port_number self)),
           is_connection_closed := False\<rparr>"
proof -
  let ?s1 = "(self\<lparr>raw_socket := Some (SocketObj (hostname self, port_number self))\<rparr>,
             (world_after_connect self w)\<lparr>mode := Blocking\<rparr>)"
  let ?s2 = "snd (send_h2_connection_preface ?s1)"
  obtain r3 s3 where c: "send_client_initial_settings_frame ext ?s2 = (r3, s3)"
    by (cases "send_client_initial_settings_frame ext ?s2")
  have r3: "r3 = Inr ()"
    using send_client_initial_settings_frame_ok [OF assms(2), of ?s2] c by simp
  have "fst s3 = fst ?s2"
    using send_client_initial_settings_frame_self [of ext ?s2] c by simp
  then have s3: "fst s3 = fst ?s1"
    by (simp add: send_h2_connection_preface_def send_bytes_self)
  have e: "setup_connection ext (self, w) = (Inr (), (fst s3)\<lparr>is_connection_closed := False\<rparr>, snd s3)"
    using assms(1) c r3 by (simp add: setup_connection_def create_raw_socket_cases)
  show "fst (setup_connection ext (self, w)) = Inr ()" by (simp add: e)
  show "fst (snd (setup_connection ext (self, w))) =
      self\<lparr>raw_socket := Some (SocketObj (hostname self, port_number self)),
           is_connection_closed := False\<rparr>"
    by (simp add: e s3)
qed

lemma quiet_world_connects: "connect_error self quiet_world = None"
  by (simp add: connect_error_def quiet_world_def)

lemma example_ext_builds_settings:
  "\<exists>b. built_bytes example_ext (create_settings_frame example_ext l) = Inr b"
  by (simp add: built_bytes_def example_ext_def)

lemma example_ext_go_away:
  "built_bytes example_ext (create_go_away_frame example_ext 0) = Inr [7, 0]"
  by (simp add: built_bytes_def example_ext_def example_frame_bytes_def)

text \<open>
  Claim C4, as the code has it. On a connection that has a socket, \<^verbatim>\<open>close_connection\<close>
  calls \<^verbatim>\<open>send\<close> once, with the bytes of the GOAWAY frame of error code 0 (which reach
  the wire unless that \<^verbatim>\<open>send\<close> raises), releases the socket and sets the closed flag. A
  second call sends nothing: its \<^verbatim>\<open>send_bytes\<close> finds no socket, which is caught and
  printed, and then \<^verbatim>\<open>self.raw_socket.close()\<close> raises \<^verbatim>\<open>AttributeError\<close>; the object is
  left as it was. (Should the codec raise while it builds or serialises the GOAWAY
  frame, \<^verbatim>\<open>close_connection\<close> raises that and does nothing else.)
\<close>

theorem C4_close_then_close_again:
  assumes "raw_socket self = Some sock"
    and "close_connection ext (self, w) = (r1, self1, w1)"
    and "close_connection ext (self1, w1) = (r2, self2, w2)"
  shows "(\<forall>go_away_frame b.
            create_go_away_frame ext 0 = Inr go_away_frame \<and> frame_bytes ext go_away_frame = Inr b
            \<longrightarrow> r1 = Inr ()
              \<and> n_send w1 = Suc (n_send w)
              \<and> wire w1 = (if send_outcome w (n_send w) = None then wire w @ [b] else wire w)
              \<and> raw_socket self1 = None \<and> is_connection_closed self1
              \<and> r2 = Inl (none_has_no ''close'')
              \<and> self2 = self1
              \<and> n_send w2 = n_send w1 \<and> wire w2 = wire w1
              \<and> stdout w2
                  = stdout w1 @ [''# Error in sending bytes: '' @ exn_str (none_has_no ''send'')])
       \<and> (\<forall>e. built_bytes ext (create_go_away_frame ext 0) = Inl e
            \<longrightarrow> r1 = Inl e \<and> self1 = self \<and> w1 = w)"
proof (rule conjI; intro allI impI)
  fix go_away_frame b
  assume c: "create_go_away_frame ext 0 = Inr go_away_frame \<and> frame_bytes ext go_away_frame = Inr b"
  then have built: "built_bytes ext (create_go_away_frame ext 0) = Inr b"
    by (simp add: built_bytes_def)
  from assms(2) have first: "r1 = Inr ()"
    "self1 = self\<lparr>raw_socket := None, is_connection_closed := True\<rparr>"
    "w1 = snd (snd (send_bytes b (self, w)))"
    by (simp_all add: close_connection_connected [OF assms(1) built])
  then have rel: "raw_socket self1 = None" by simp
  from assms(3) have second: "r2 = Inl (none_has_no ''close'')" "self2 = self1"
    "w2 = print (''# Error in sending bytes: '' @ exn_str (none_has_no ''send'')) w1"
    by (simp_all add: close_connection_released [OF rel built])
  have w1: "n_send w1 = Suc (n_send w)"
    "wire w1 = (if send_outcome w (n_send w) = None then wire w @ [b] else wire w)"
    by (simp_all add: first(3) send_bytes_socket [OF assms(1)] print_def split: option.splits)
  show "r1 = Inr ()
      \<and> n_send w1 = Suc (n_send w)
      \<and> wire w1 = (if send_outcome w (n_send w) = None then wire w @ [b] else wire w)
      \<and> raw_socket self1 = None \<and> is_connection_closed self1
      \<and> r2 = Inl (none_has_no ''close'')
      \<and> self2 = self1
      \<and> n_send w2 = n_send w1 \<and> wire w2 = wire w1
      \<and> stdout w2 = stdout w1 @ [''# Error in sending bytes: '' @ exn_str (none_has_no ''send'')]"
    using first(1,2) second w1 by (simp add: print_def)
next
  fix e
  assume "built_bytes ext (create_go_away_frame ext 0) = Inl e"
  from close_connection_unbuilt [OF this, of "(self, w)"] assms(2)
  show "r1 = Inl e \<and> self1 = self \<and> w1 = w" by simp
qed

theorem C4_close_then_close_again_witness:
  "raw_socket connected_example = Some (SocketObj (''h'', 443))
   \<and> create_go_away_frame example_ext 0
       = Inr \<lparr>stream_id = 0, flags = {}, payload = H2GoAwayFrame 0\<rparr>
   \<and> frame_bytes example_ext \<lparr>stream_id = 0, flags = {}, payload = H2GoAwayFrame 0\<rparr> = Inr [7, 0]
   \<and> fst (close_connection example_ext (connected_example, quiet_world)) = Inr ()
   \<and> wire (snd (snd (close_connection example_ext (connected_example, quiet_world)))) = [[7, 0]]
   \<and> fst (close_connection example_ext
            (snd (close_connection example_ext (connected_example, quiet_world))))
       = Inl (none_has_no ''close'')
   \<and> wire (snd (snd (close_connection example_ext
            (snd (close_connection example_ext (connected_example, quiet_world)))))) = [[7, 0]]"
proof -
  let ?c1 = "close_connection example_ext (connected_example, quiet_world)"
  let ?c2 = "close_connection example_ext (snd ?c1)"
  have s: "raw_socket connected_example = Some (SocketObj (''h'', 443))"
    by (simp add: connected_example_def)
  have q: "send_outcome quiet_world (n_send quiet_world) = None" "wire quiet_world = []"
    by (simp_all add: quiet_world_def)
  have g: "create_go_away_frame example_ext 0
       = Inr \<lparr>stream_id = 0, flags = {}, payload = H2GoAwayFrame 0\<rparr>"
    "frame_bytes example_ext \<lparr>stream_id = 0, flags = {}, payload = H2GoAwayFrame 0\<rparr> = Inr [7, 0]"
    by (simp_all add: example_ext_def example_frame_bytes_def)
  have e1: "?c1 = (fst ?c1, fst (snd ?c1), snd (snd ?c1))" by simp
  have e2: "close_connection example_ext (fst (snd ?c1), snd (snd ?c1))
              = (fst ?c2, fst (snd ?c2), snd (snd ?c2))" by simp
  from C4_close_then_close_again [OF s e1 e2] s q g show ?thesis by simp
qed

theorem C4_second_close_raises_counterexample:
  "fst (close_connection example_ext
         (snd (close_connection example_ext
                (snd (setup_connection example_ext (init ''h'' 443 None None None, quiet_world))))))
     = Inl (AttributeError (quoted ''NoneType'' @ '' object has no attribute '' @ quoted ''close''))
   \<and> fst (close_connection example_ext
         (snd (close_connection example_ext
                (snd (setup_connection example_ext (init ''h'' 443 None None None, quiet_world))))))
     \<noteq> Inr ()"
proof -
  let ?s0 = "(init ''h'' 443 None None None, quiet_world)"
  let ?s1 = "snd (setup_connection example_ext ?s0)"
  have "raw_socket (fst ?s1) = Some (SocketObj (''h'', 443))"
    by (simp add: setup_connection_opened(2) [OF quiet_world_connects example_ext_builds_settings]
        init_def)
  then have "close_connection example_ext (fst ?s1, snd ?s1) =
      (Inr (), (fst ?s1)\<lparr>raw_socket := None, is_connection_closed := True\<rparr>,
       snd (snd (send_bytes [7, 0] (fst ?s1, snd ?s1))))"
    using example_ext_go_away by (rule close_connection_connected)
  then have "raw_socket (fst (snd (close_connection example_ext ?s1))) = None" by simp
  from close_connection_released [OF this example_ext_go_away,
      of "snd (snd (close_connection example_ext ?s1))"]
  show ?thesis by (simp add: none_has_no_def)
qed

text \<open>
  Claim C5 fails on the code when the transport opens and a send of the handshake
  fails. Here the connect succeeds and every \<^verbatim>\<open>send\<close> raises: \<^verbatim>\<open>send_bytes\<close> catches and
  prints the error of the preface and that of the SETTINGS frame, nothing reaches the
  wire, and \<^verbatim>\<open>setup_connection\<close> returns and clears the closed flag.
\<close>

theorem C5_failed_sends_do_not_abort_setup:
  "connect_error (init ''h'' 443 None None None)
      (quiet_world\<lparr>send_outcome := (\<lambda>k. Some ''Broken pipe'')\<rparr>) = None
   \<and> send_outcome (quiet_world\<lparr>send_outcome := (\<lambda>k. Some ''Broken pipe'')\<rparr>) 0 = Some ''Broken pipe''
   \<and> send_outcome (quiet_world\<lparr>send_outcome := (\<lambda>k. Some ''Broken pipe'')\<rparr>) 1 = Some ''Broken pipe''
   \<and> fst (setup_connection example_ext (init ''h'' 443 None None None,
        quiet_world\<lparr>send_outcome := (\<lambda>k. Some ''Broken pipe'')\<rparr>)) = Inr ()
   \<and> \<not> is_connection_closed (fst (snd (setup_connection example_ext
        (init ''h'' 443 None None None, quiet_world\<lparr>send_outcome := (\<lambda>k. Some ''Broken pipe'')\<rparr>))))
   \<and> wire (snd (snd (setup_connection example_ext
        (init ''h'' 443 None None None, quiet_world\<lparr>send_outcome := (\<lambda>k. Some ''Broken pipe'')\<rparr>))))
       = []
   \<and> stdout (snd (snd (setup_connection example_ext
        (init ''h'' 443 None None None, quiet_world\<lparr>send_outcome := (\<lambda>k. Some ''Broken pipe'')\<rparr>))))
       = [''# Error in sending bytes: Broken pipe'', ''# Error in sending bytes: Broken pipe'']"
proof -
  let ?w = "quiet_world\<lparr>send_outcome := (\<lambda>k. Some ''Broken pipe'')\<rparr>"
  let ?self = "init ''h'' 443 None None None"
  have n: "connect_error ?self ?w = None"
    by (simp add: connect_error_def quiet_world_def world_after_connect_def)
  have t: "settings_loop default_settings_table (map fst default_settings_table) [] =
      Inr (transmitted_entries default_settings_table)"
    by (rule settings_loop_table [OF default_settings_distinct])
  have p: "\<not> truthy_str (proxy_hostname ?self)" "DEFAULT_SETTINGS ?self = default_settings_table"
    by (simp_all add: init_def truthy_str_def)
  have run: "setup_connection example_ext (?self, ?w) =
      (Inr (),
       ?self\<lparr>raw_socket := Some (SocketObj (''h'', 443)), is_connection_closed := False\<rparr>,
       ?w\<lparr>mode := Blocking, n_send := 2,
           stdout := [''# Error in sending bytes: Broken pipe'',
                      ''# Error in sending bytes: Broken pipe'']\<rparr>)"
    using n p t
    by (simp add: setup_connection_def create_raw_socket_cases world_after_connect_def
        send_h2_connection_preface_def send_client_initial_settings_frame_def send_built_def
        built_bytes_def send_bytes_def get_using_socket_def print_def example_ext_def
        quiet_world_def init_def)
  show ?thesis
    using n by (simp add: run) (simp add: quiet_world_def)
qed

section \<open>Properties of the closed flag\<close>









end
